theory Spec2Isabelle
  imports Complex_Main "HOL-Library.Multiset"
begin

section \<open>Data frames\<close>

text \<open>
  The agents and the layer store work on polars data frames. A frame is modelled
  row-wise: the ordered column names with their dtypes, and the rows as lists of
  cells, one cell per column. Finite float values are modelled by the reals they
  denote (NaN and the infinities are left out); a date is the number of its day,
  counted from 1970-01-01 as polars stores it.
\<close>

datatype dtype = Int64 | Float64 | Utf8 | Date

datatype cell = Null | IntV int | FloatV real | StrV string | DateV int

type_synonym row = "cell list"

record dataframe =
  columns :: "(string \<times> dtype) list"
  rows :: "row list"

datatype py_error =
    ZeroDivisionError
  | TypeError
  | KeyError
  | InvalidOperationError
  | DuplicateError
  | CatalogError
  | QueryError

text \<open>
  \<open>len(df)\<close>, and the position of a column by its name: \<open>col in df.columns\<close>
  is \<open>col_index col (columns df) \<noteq> None\<close>, and \<open>df[col]\<close> is the column at the
  position found.
\<close>

definition height :: "dataframe \<Rightarrow> nat" where
  "height df = length (rows df)"

fun col_index :: "string \<Rightarrow> (string \<times> dtype) list \<Rightarrow> nat option" where
  "col_index c [] = None"
| "col_index c (p # ps) =
     (if fst p = c then Some 0
      else (case col_index c ps of None \<Rightarrow> None | Some i \<Rightarrow> Some (Suc i)))"

text \<open>A cell read past the end of a short row is taken as null.\<close>

definition cell_at :: "nat \<Rightarrow> row \<Rightarrow> cell" where
  "cell_at i r = (if i < length r then r ! i else Null)"

definition col_values :: "dataframe \<Rightarrow> nat \<Rightarrow> cell list" where
  "col_values df i = map (cell_at i) (rows df)"

definition null_count :: "cell list \<Rightarrow> nat" where
  "null_count vs = length (filter (\<lambda>v. v = Null) vs)"

definition n_unique :: "'a list \<Rightarrow> nat" where
  "n_unique xs = length (remdups xs)"

subsection \<open>Strings\<close>

text \<open>
  \<open>str.strip_chars()\<close> removes leading and trailing whitespace, \<open>str.lower()\<close>
  lowers the letters and \<open>keyword in s\<close> looks for a substring. Characters are
  bytes here, so both are modelled on ASCII.
\<close>

definition is_space :: "char \<Rightarrow> bool" where
  "is_space c = (c \<in> set [CHR '' '', CHR 0x09, CHR 0x0A, CHR 0x0B, CHR 0x0C, CHR 0x0D])"

definition strip_chars :: "string \<Rightarrow> string" where
  "strip_chars s = rev (dropWhile is_space (rev (dropWhile is_space s)))"

definition lower_char :: "char \<Rightarrow> char" where
  "lower_char c =
     (let n = (of_char c :: nat) in if 65 \<le> n \<and> n \<le> 90 then char_of (n + 32) else c)"

definition lower :: "string \<Rightarrow> string" where
  "lower s = map lower_char s"

fun starts_with :: "string \<Rightarrow> string \<Rightarrow> bool" where
  "starts_with [] s = True"
| "starts_with (k # ks) [] = False"
| "starts_with (k # ks) (c # cs) = (k = c \<and> starts_with ks cs)"

fun contains :: "string \<Rightarrow> string \<Rightarrow> bool" where
  "contains k [] = (k = [])"
| "contains k (c # cs) = (starts_with k (c # cs) \<or> contains k cs)"

section \<open>Profiles and the quality score\<close>

text \<open>
  An issue and a column profile are Python dictionaries. The message and the
  recommendation of an issue are display text that no branch reads; they are left
  out, as are the statistics that only feed the report (min, max, mean, median,
  std, the string lengths). A key that \<open>calculate_quality_score\<close> reads with
  \<open>.get\<close> and a default is an optional field.
\<close>

record issue =
  severity :: string
  issue_type :: string
  issue_column :: string

record col_profile =
  null_cnt :: nat
  null_percentage :: "real option"
  unique_count :: nat
  unique_percentage :: real
  zeros_count :: "nat option"
  negative_count :: "nat option"
  empty_strings :: "nat option"
  whitespace_issues :: "nat option"

record profile =
  dataset_name :: string
  row_count :: nat
  column_count :: nat
  profile_columns :: "(string \<times> col_profile) list option"
  issues_detected :: "issue list option"

subsection \<open>QualityAgent.calculate\_quality\_score\<close>

text \<open>
  The score is a Python float that starts at 100.0 and only ever has 10, 5 or 2
  subtracted: every value it takes is an integer that a float holds exactly until
  it is far below zero, where \<open>max(0, score)\<close> is 0 either way. The real numbers
  compute the same result.
\<close>

definition issue_penalty :: "issue \<Rightarrow> real" where
  "issue_penalty i =
     (if severity i = ''HIGH'' then 10
      else if severity i = ''MEDIUM'' then 5
      else if severity i = ''LOW'' then 2
      else 0)"

definition null_penalty :: "col_profile \<Rightarrow> real" where
  "null_penalty cp =
     (let null_pct = (case null_percentage cp of None \<Rightarrow> 0 | Some x \<Rightarrow> x)
      in if null_pct > 50 then 5 else if null_pct > 20 then 2 else 0)"

fun penalize_issues :: "real \<Rightarrow> issue list \<Rightarrow> real" where
  "penalize_issues score [] = score"
| "penalize_issues score (i # is) = penalize_issues (score - issue_penalty i) is"

fun penalize_nulls :: "real \<Rightarrow> (string \<times> col_profile) list \<Rightarrow> real" where
  "penalize_nulls score [] = score"
| "penalize_nulls score (c # cs) = penalize_nulls (score - null_penalty (snd c)) cs"

definition calculate_quality_score :: "profile \<Rightarrow> real" where
  "calculate_quality_score p =
     (let score = penalize_issues 100
                    (case issues_detected p of None \<Rightarrow> [] | Some is \<Rightarrow> is);
          score = penalize_nulls score
                    (case profile_columns p of None \<Rightarrow> [] | Some cs \<Rightarrow> cs)
      in max 0 score)"

text \<open>The score as the specification words it: counts of issues and of columns.\<close>

definition count_severity :: "string \<Rightarrow> profile \<Rightarrow> nat" where
  "count_severity s p =
     length (filter (\<lambda>i. severity i = s)
       (case issues_detected p of None \<Rightarrow> [] | Some is \<Rightarrow> is))"

definition null_pct_of :: "col_profile \<Rightarrow> real" where
  "null_pct_of cp = (case null_percentage cp of None \<Rightarrow> 0 | Some x \<Rightarrow> x)"

definition count_null_above_50 :: "profile \<Rightarrow> nat" where
  "count_null_above_50 p =
     length (filter (\<lambda>c. null_pct_of (snd c) > 50)
       (case profile_columns p of None \<Rightarrow> [] | Some cs \<Rightarrow> cs))"

definition count_null_20_to_50 :: "profile \<Rightarrow> nat" where
  "count_null_20_to_50 p =
     length (filter (\<lambda>c. 20 < null_pct_of (snd c) \<and> null_pct_of (snd c) \<le> 50)
       (case profile_columns p of None \<Rightarrow> [] | Some cs \<Rightarrow> cs))"

definition spec_quality_score :: "profile \<Rightarrow> real" where
  "spec_quality_score p =
     max 0 (min 100
       (100 - 10 * real (count_severity ''HIGH'' p)
            - 5 * real (count_severity ''MEDIUM'' p)
            - 2 * real (count_severity ''LOW'' p)
            - 5 * real (count_null_above_50 p)
            - 2 * real (count_null_20_to_50 p)))"

subsection \<open>DataProfilerAgent\<close>

text \<open>
  \<open>_profile_column\<close> divides by \<open>len(df)\<close> with Python's \<open>/\<close> on two ints, which
  raises ZeroDivisionError on a frame without rows. The numeric and the string
  statistics sit in \<open>try: ... except: pass\<close> blocks: when one of the library calls
  in a block raises (\<open>float(None)\<close> for the minimum of a column of nulls, say), none
  of the block's keys is set. Whether a block goes through is the library's matter
  and is a parameter here: \<open>num_ok\<close> and \<open>str_ok\<close>, on the column's values.
\<close>

definition is_numeric :: "dtype \<Rightarrow> bool" where
  "is_numeric d = (d = Int64 \<or> d = Float64)"

fun cell_num :: "cell \<Rightarrow> real option" where
  "cell_num Null = None"
| "cell_num (IntV n) = Some (real_of_int n)"
| "cell_num (FloatV x) = Some x"
| "cell_num (StrV s) = None"
| "cell_num (DateV d) = None"

fun cell_str :: "cell \<Rightarrow> string option" where
  "cell_str Null = None"
| "cell_str (IntV n) = None"
| "cell_str (FloatV x) = None"
| "cell_str (StrV s) = Some s"
| "cell_str (DateV d) = None"

text \<open>
  What a cell compares as against a number in a polars expression: a number as
  itself, a date as its day number; a null and a string as nothing.
\<close>

fun cell_ord :: "cell \<Rightarrow> real option" where
  "cell_ord Null = None"
| "cell_ord (IntV n) = Some (real_of_int n)"
| "cell_ord (FloatV x) = Some x"
| "cell_ord (StrV s) = None"
| "cell_ord (DateV d) = Some (real_of_int d)"

definition count_where :: "('a \<Rightarrow> bool) \<Rightarrow> 'a list \<Rightarrow> nat" where
  "count_where P xs = length (filter P xs)"

definition is_zero :: "cell \<Rightarrow> bool" where
  "is_zero v = (case cell_num v of None \<Rightarrow> False | Some x \<Rightarrow> x = 0)"

definition is_negative :: "cell \<Rightarrow> bool" where
  "is_negative v = (case cell_num v of None \<Rightarrow> False | Some x \<Rightarrow> x < 0)"

definition is_empty_string :: "cell \<Rightarrow> bool" where
  "is_empty_string v = (case cell_str v of None \<Rightarrow> False | Some s \<Rightarrow> s = [])"

definition is_untrimmed :: "cell \<Rightarrow> bool" where
  "is_untrimmed v = (case cell_str v of None \<Rightarrow> False | Some s \<Rightarrow> strip_chars s \<noteq> s)"

definition profile_column ::
  "(cell list \<Rightarrow> bool) \<Rightarrow> (cell list \<Rightarrow> bool) \<Rightarrow> dataframe \<Rightarrow> string
     \<Rightarrow> py_error + col_profile" where
  "profile_column num_ok str_ok df col =
     (case col_index col (columns df) of
        None \<Rightarrow> Inl KeyError
      | Some i \<Rightarrow>
          if height df = 0 then Inl ZeroDivisionError
          else
            let col_data = col_values df i;
                d = snd (columns df ! i);
                p = \<lparr> null_cnt = null_count col_data,
                      null_percentage =
                        Some (real (null_count col_data) / real (height df) * 100),
                      unique_count = n_unique col_data,
                      unique_percentage =
                        real (n_unique col_data) / real (height df) * 100,
                      zeros_count = None, negative_count = None,
                      empty_strings = None, whitespace_issues = None \<rparr>;
                p = (if is_numeric d \<and> num_ok col_data
                     then p \<lparr> zeros_count := Some (count_where is_zero col_data),
                             negative_count := Some (count_where is_negative col_data) \<rparr>
                     else p);
                p = (if d = Utf8 \<and> str_ok col_data
                     then p \<lparr> empty_strings := Some (count_where is_empty_string col_data),
                             whitespace_issues := Some (count_where is_untrimmed col_data) \<rparr>
                     else p)
            in Inr p)"

definition mk_issue :: "string \<Rightarrow> string \<Rightarrow> string \<Rightarrow> issue" where
  "mk_issue sev ty col = \<lparr> severity = sev, issue_type = ty, issue_column = col \<rparr>"

definition negative_keywords :: "string list" where
  "negative_keywords = [''price'', ''amount'', ''quantity'', ''age'', ''count'']"

definition detect_column_issues :: "string \<Rightarrow> col_profile \<Rightarrow> py_error + issue list" where
  "detect_column_issues col p =
     (case null_percentage p of
        None \<Rightarrow> Inl KeyError
      | Some null_pct \<Rightarrow>
          Inr ((if null_pct > 50 then [mk_issue ''HIGH'' ''HIGH_NULL_RATE'' col]
                else if null_pct > 10 then [mk_issue ''MEDIUM'' ''MODERATE_NULL_RATE'' col]
                else [])
             @ (if unique_percentage p < 5 \<and> unique_count p > 1
                then [mk_issue ''INFO'' ''LOW_CARDINALITY'' col] else [])
             @ (case negative_count p of
                  None \<Rightarrow> []
                | Some n \<Rightarrow>
                    if n > 0 \<and> list_ex (\<lambda>keyword. contains keyword (lower col)) negative_keywords
                    then [mk_issue ''HIGH'' ''NEGATIVE_VALUES'' col] else [])
             @ (case whitespace_issues p of
                  None \<Rightarrow> []
                | Some n \<Rightarrow> if n > 0 then [mk_issue ''LOW'' ''WHITESPACE'' col] else [])))"

definition detect_dataset_issues :: "dataframe \<Rightarrow> issue list" where
  "detect_dataset_issues df =
     (let duplicate_count = height df - n_unique (rows df)
      in (if duplicate_count > 0 then [mk_issue ''MEDIUM'' ''DUPLICATES'' ''ALL''] else [])
         @ concat (map (\<lambda>i. if null_count (col_values df i) = height df
                             then [mk_issue ''HIGH'' ''EMPTY_COLUMN'' (fst (columns df ! i))]
                             else [])
                    [0 ..< length (columns df)]))"

fun profile_each_column ::
  "(cell list \<Rightarrow> bool) \<Rightarrow> (cell list \<Rightarrow> bool) \<Rightarrow> dataframe \<Rightarrow> string list
     \<Rightarrow> py_error + ((string \<times> col_profile) list \<times> issue list)" where
  "profile_each_column num_ok str_ok df [] = Inr ([], [])"
| "profile_each_column num_ok str_ok df (col # cols) =
     (case profile_column num_ok str_ok df col of
        Inl e \<Rightarrow> Inl e
      | Inr cp \<Rightarrow>
          (case detect_column_issues col cp of
             Inl e \<Rightarrow> Inl e
           | Inr issues \<Rightarrow>
               (case profile_each_column num_ok str_ok df cols of
                  Inl e \<Rightarrow> Inl e
                | Inr (ps, later) \<Rightarrow> Inr ((col, cp) # ps, issues @ later))))"

definition profile_dataset ::
  "(cell list \<Rightarrow> bool) \<Rightarrow> (cell list \<Rightarrow> bool) \<Rightarrow> dataframe \<Rightarrow> string
     \<Rightarrow> py_error + profile" where
  "profile_dataset num_ok str_ok df name =
     (case profile_each_column num_ok str_ok df (map fst (columns df)) of
        Inl e \<Rightarrow> Inl e
      | Inr (ps, issues) \<Rightarrow>
          Inr \<lparr> dataset_name = name,
                row_count = height df,
                column_count = length (columns df),
                profile_columns = Some ps,
                issues_detected = Some (issues @ detect_dataset_issues df) \<rparr>)"

text \<open>
  \<open>generate_quality_report\<close> profiles the frame and scores the profile; the score
  is the part of the report modelled.
\<close>

definition report_quality_score ::
  "(cell list \<Rightarrow> bool) \<Rightarrow> (cell list \<Rightarrow> bool) \<Rightarrow> dataframe \<Rightarrow> string
     \<Rightarrow> py_error + real" where
  "report_quality_score num_ok str_ok df name =
     (case profile_dataset num_ok str_ok df name of
        Inl e \<Rightarrow> Inl e
      | Inr p \<Rightarrow> Inr (calculate_quality_score p))"

section \<open>RemediationAgent.auto\_remediate\<close>

text \<open>
  \<open>df.unique()\<close> is called with polars' defaults (\<open>keep='any'\<close>,
  \<open>maintain_order=False\<close>): the library promises one row of every group of equal
  rows and no order of the result. The function that does it is a parameter
  \<open>uniq\<close> of everything that deduplicates, and \<open>unique_contract\<close> is what the
  library promises of it.
\<close>

definition unique_contract :: "(row list \<Rightarrow> row list) \<Rightarrow> bool" where
  "unique_contract uniq = (\<forall>rs. distinct (uniq rs) \<and> set (uniq rs) = set rs)"

record action =
  action_issue :: issue
  action_name :: string
  action_column :: "string option"
  rows_removed :: "int option"
  reason_null_pct :: "real option"
  status :: string

text \<open>
  \<open>with_columns(pl.col(col).str.strip_chars().alias(col))\<close>,
  \<open>filter(pl.col(col) >= 0)\<close> and \<open>drop(col)\<close>. A filter keeps the rows whose
  predicate is true: where the value is null the comparison is null, and the row
  goes. The expression has no test of the dtype: a date column is compared by its
  day numbers, and comparing a string column with a number raises.
\<close>

definition strip_cell :: "cell \<Rightarrow> cell" where
  "strip_cell v = (case cell_str v of None \<Rightarrow> v | Some s \<Rightarrow> StrV (strip_chars s))"

definition strip_column :: "nat \<Rightarrow> dataframe \<Rightarrow> dataframe" where
  "strip_column i df = df \<lparr> rows := map (\<lambda>r. r[i := strip_cell (cell_at i r)]) (rows df) \<rparr>"

definition is_ge_zero :: "cell \<Rightarrow> bool" where
  "is_ge_zero v = (case cell_ord v of None \<Rightarrow> False | Some x \<Rightarrow> x \<ge> 0)"

definition filter_rows :: "(row \<Rightarrow> bool) \<Rightarrow> dataframe \<Rightarrow> dataframe" where
  "filter_rows P df = df \<lparr> rows := filter P (rows df) \<rparr>"

definition drop_nth :: "nat \<Rightarrow> 'a list \<Rightarrow> 'a list" where
  "drop_nth i xs = take i xs @ drop (Suc i) xs"

definition drop_column :: "nat \<Rightarrow> dataframe \<Rightarrow> dataframe" where
  "drop_column i df =
     \<lparr> columns = drop_nth i (columns df), rows = map (drop_nth i) (rows df) \<rparr>"

definition remediate_issue ::
  "(row list \<Rightarrow> row list) \<Rightarrow> dataframe \<Rightarrow> issue
     \<Rightarrow> py_error + (dataframe \<times> action option)" where
  "remediate_issue uniq df_fixed issue =
     (if issue_type issue = ''WHITESPACE'' then
        (case col_index (issue_column issue) (columns df_fixed) of
           None \<Rightarrow> Inr (df_fixed, None)
         | Some i \<Rightarrow>
             if snd (columns df_fixed ! i) = Utf8
             then Inr (strip_column i df_fixed,
                    Some \<lparr> action_issue = issue, action_name = ''TRIMMED_WHITESPACE'',
                           action_column = Some (issue_column issue), rows_removed = None,
                           reason_null_pct = None, status = ''SUCCESS'' \<rparr>)
             else Inr (df_fixed, None))
      else if issue_type issue = ''DUPLICATES'' then
        (let original_count = height df_fixed;
             df_new = df_fixed \<lparr> rows := uniq (rows df_fixed) \<rparr>;
             removed = int original_count - int (height df_new)
         in Inr (df_new,
              Some \<lparr> action_issue = issue, action_name = ''REMOVED_DUPLICATES'',
                     action_column = None, rows_removed = Some removed,
                     reason_null_pct = None, status = ''SUCCESS'' \<rparr>))
      else if issue_type issue = ''NEGATIVE_VALUES'' then
        (case col_index (issue_column issue) (columns df_fixed) of
           None \<Rightarrow> Inr (df_fixed, None)
         | Some i \<Rightarrow>
             if snd (columns df_fixed ! i) = Utf8 then Inl InvalidOperationError
             else
               let original_count = height df_fixed;
                   df_new = filter_rows (\<lambda>r. is_ge_zero (cell_at i r)) df_fixed;
                   removed = int original_count - int (height df_new)
               in Inr (df_new,
                    Some \<lparr> action_issue = issue, action_name = ''FILTERED_NEGATIVE_VALUES'',
                           action_column = Some (issue_column issue),
                           rows_removed = Some removed,
                           reason_null_pct = None, status = ''SUCCESS'' \<rparr>))
      else if issue_type issue = ''HIGH_NULL_RATE'' then
        (case col_index (issue_column issue) (columns df_fixed) of
           None \<Rightarrow> Inr (df_fixed, None)
         | Some i \<Rightarrow>
             if height df_fixed = 0 then Inl ZeroDivisionError
             else
               let null_pct =
                     real (null_count (col_values df_fixed i)) / real (height df_fixed) * 100
               in if null_pct > 80
                  then Inr (drop_column i df_fixed,
                         Some \<lparr> action_issue = issue, action_name = ''DROPPED_COLUMN'',
                                action_column = Some (issue_column issue),
                                rows_removed = None,
                                reason_null_pct = Some null_pct, status = ''SUCCESS'' \<rparr>)
                  else Inr (df_fixed, None))
      else Inr (df_fixed, None))"

fun remediate_loop ::
  "(row list \<Rightarrow> row list) \<Rightarrow> dataframe \<Rightarrow> action list \<Rightarrow> issue list
     \<Rightarrow> py_error + (dataframe \<times> action list)" where
  "remediate_loop uniq df_fixed remediation_actions [] = Inr (df_fixed, remediation_actions)"
| "remediate_loop uniq df_fixed remediation_actions (issue # issues) =
     (case remediate_issue uniq df_fixed issue of
        Inl e \<Rightarrow> Inl e
      | Inr (df_new, act) \<Rightarrow>
          remediate_loop uniq df_new
            (case act of None \<Rightarrow> remediation_actions
                       | Some a \<Rightarrow> remediation_actions @ [a])
            issues)"

definition auto_remediate ::
  "(row list \<Rightarrow> row list) \<Rightarrow> dataframe \<Rightarrow> issue list
     \<Rightarrow> py_error + (dataframe \<times> action list)" where
  "auto_remediate uniq df issues = remediate_loop uniq df [] issues"

text \<open>
  A frame is well typed when every row has one cell per column and every cell is
  null or a value of its column's dtype, as every polars frame is.
\<close>

definition cell_of_dtype :: "dtype \<Rightarrow> cell \<Rightarrow> bool" where
  "cell_of_dtype d v =
     (case v of Null \<Rightarrow> True | IntV n \<Rightarrow> d = Int64 | FloatV x \<Rightarrow> d = Float64
              | StrV s \<Rightarrow> d = Utf8 | DateV k \<Rightarrow> d = Date)"

definition well_typed :: "dataframe \<Rightarrow> bool" where
  "well_typed df =
     list_all (\<lambda>r. list_all2 (\<lambda>c v. cell_of_dtype (snd c) v) (columns df) r) (rows df)"

subsection \<open>Notions used in the statements about a second run\<close>

text \<open>
  The branch of the \<open>if\<close>/\<open>elif\<close> chain of \<open>auto_remediate\<close> that an issue takes,
  read from its type in the order of the chain. An issue of any other type takes no
  branch.
\<close>

datatype kind = Whitespace | Duplicates | Negative_values | High_null_rate | Other

definition kind_of :: "issue \<Rightarrow> kind" where
  "kind_of i =
     (if issue_type i = ''WHITESPACE'' then Whitespace
      else if issue_type i = ''DUPLICATES'' then Duplicates
      else if issue_type i = ''NEGATIVE_VALUES'' then Negative_values
      else if issue_type i = ''HIGH_NULL_RATE'' then High_null_rate
      else Other)"

text \<open>
  The orders of two issues in which the fix of the later one cannot undo what the fix
  of the earlier one has reached. Removing rows (NEGATIVE\_VALUES, DUPLICATES) changes
  the share of nulls that an earlier HIGH\_NULL\_RATE issue has measured; trimming a
  column (WHITESPACE) or dropping one (HIGH\_NULL\_RATE) can make equal two rows that an
  earlier DUPLICATES issue has found different. A list is \<open>order_safe\<close> when every
  issue may follow all the issues before it.
\<close>

definition may_follow :: "issue \<Rightarrow> issue \<Rightarrow> bool" where
  "may_follow i j =
     (case (kind_of i, kind_of j) of
        (High_null_rate, Negative_values) \<Rightarrow> False
      | (High_null_rate, Duplicates) \<Rightarrow> False
      | (Duplicates, Whitespace) \<Rightarrow> False
      | (Duplicates, High_null_rate) \<Rightarrow> False
      | _ \<Rightarrow> True)"

fun order_safe :: "issue list \<Rightarrow> bool" where
  "order_safe [] = True"
| "order_safe (i # is) = (list_all (may_follow i) is \<and> order_safe is)"

text \<open>
  The number of DUPLICATES issues of a list: each is one call of \<open>unique\<close>.
\<close>

definition count_duplicates :: "issue list \<Rightarrow> nat" where
  "count_duplicates issues = length (filter (\<lambda>i. kind_of i = Duplicates) issues)"

text \<open>
  The action that \<open>auto_remediate\<close> logs for an issue whose fix finds nothing to
  change in a frame with the given columns. The three branches that log
  unconditionally still log: trimming its action without a count, deduplication and
  the filter theirs with 0 rows removed. HIGH\_NULL\_RATE logs only the drop of a
  column, and an issue whose column is not in the frame logs nothing.
\<close>

definition replayed :: "(string \<times> dtype) list \<Rightarrow> issue \<Rightarrow> action option" where
  "replayed cols issue =
     (case kind_of issue of
        Whitespace \<Rightarrow>
          (case col_index (issue_column issue) cols of
             None \<Rightarrow> None
           | Some k \<Rightarrow>
               if snd (cols ! k) = Utf8
               then Some \<lparr> action_issue = issue, action_name = ''TRIMMED_WHITESPACE'',
                           action_column = Some (issue_column issue), rows_removed = None,
                           reason_null_pct = None, status = ''SUCCESS'' \<rparr>
               else None)
      | Duplicates \<Rightarrow>
          Some \<lparr> action_issue = issue, action_name = ''REMOVED_DUPLICATES'',
                 action_column = None, rows_removed = Some 0,
                 reason_null_pct = None, status = ''SUCCESS'' \<rparr>
      | Negative_values \<Rightarrow>
          (case col_index (issue_column issue) cols of
             None \<Rightarrow> None
           | Some k \<Rightarrow>
               Some \<lparr> action_issue = issue, action_name = ''FILTERED_NEGATIVE_VALUES'',
                      action_column = Some (issue_column issue), rows_removed = Some 0,
                      reason_null_pct = None, status = ''SUCCESS'' \<rparr>)
      | High_null_rate \<Rightarrow> None
      | Other \<Rightarrow> None)"

text \<open>
  The percentage of nulls of a column, as the HIGH\_NULL\_RATE branch computes it.
\<close>

definition column_null_pct :: "dataframe \<Rightarrow> nat \<Rightarrow> real" where
  "column_null_pct df k = real (null_count (col_values df k)) / real (height df) * 100"

text \<open>
  An issue is settled in a frame when its branch finds nothing to change there: the
  named column is gone, or it is not a string column or every value of it is already
  trimmed (WHITESPACE); no two rows are equal (DUPLICATES); the column is not a string
  column and every value of it is at least 0, none null (NEGATIVE\_VALUES); the frame
  has rows and the column is at most 80 percent null (HIGH\_NULL\_RATE).
\<close>

definition settled :: "issue \<Rightarrow> dataframe \<Rightarrow> bool" where
  "settled i df =
     (case kind_of i of
        Whitespace \<Rightarrow>
          (case col_index (issue_column i) (columns df) of
             None \<Rightarrow> True
           | Some k \<Rightarrow>
               snd (columns df ! k) \<noteq> Utf8
               \<or> list_all (\<lambda>r. strip_cell (cell_at k r) = cell_at k r) (rows df))
      | Duplicates \<Rightarrow> distinct (rows df)
      | Negative_values \<Rightarrow>
          (case col_index (issue_column i) (columns df) of
             None \<Rightarrow> True
           | Some k \<Rightarrow>
               snd (columns df ! k) \<noteq> Utf8
               \<and> list_all (\<lambda>r. is_ge_zero (cell_at k r)) (rows df))
      | High_null_rate \<Rightarrow>
          (case col_index (issue_column i) (columns df) of
             None \<Rightarrow> True
           | Some k \<Rightarrow> rows df \<noteq> [] \<and> \<not> column_null_pct df k > 80)
      | Other \<Rightarrow> True)"

text \<open>
  The place of column \<open>j\<close> once column \<open>k\<close> has been dropped, and a row with the
  cell of one column trimmed.
\<close>

definition shifted :: "nat \<Rightarrow> nat \<Rightarrow> nat" where
  "shifted k j = (if j < k then j else j - 1)"

definition trim_row :: "nat \<Rightarrow> row \<Rightarrow> row" where
  "trim_row k r = r[k := strip_cell (cell_at k r)]"

section \<open>The layer store: MedallionDuckDB\<close>

text \<open>
  The store is the parquet files under the three layer paths and the tables
  registered in the DuckDB schemas, each a map from the table's name. DuckDB
  compares the identifiers of tables without regard to case, the file system
  compares file names as they are written: table names are taken to be plain
  identifiers in lower case, where the two agree, and names that differ only in
  case are not modelled. Reading a parquet file gives back the frame that was
  written; a failing disk is not modelled.
\<close>

record db =
  bronze_files :: "string \<rightharpoonup> dataframe"
  silver_files :: "string \<rightharpoonup> dataframe"
  gold_files :: "string \<rightharpoonup> dataframe"
  bronze_tables :: "string \<rightharpoonup> dataframe"
  silver_tables :: "string \<rightharpoonup> dataframe"
  gold_tables :: "string \<rightharpoonup> dataframe"

text \<open>
  \<open>load_to_bronze\<close>: \<open>df.write_parquet(parquet_path)\<close>, then
  \<open>DROP TABLE IF EXISTS\<close> when the mode is \<open>replace\<close>, then
  \<open>CREATE TABLE IF NOT EXISTS ... AS SELECT * FROM read_parquet(...)\<close>, which
  leaves a table that exists as it is.
\<close>

definition load_to_bronze :: "db \<Rightarrow> dataframe \<Rightarrow> string \<Rightarrow> string \<Rightarrow> db \<times> nat" where
  "load_to_bronze s df table_name mode =
     (let s = s \<lparr> bronze_files := (bronze_files s)(table_name \<mapsto> df) \<rparr>;
          s = (if mode = ''replace''
               then s \<lparr> bronze_tables := (bronze_tables s)(table_name := None) \<rparr>
               else s);
          s = (case bronze_tables s table_name of
                 None \<Rightarrow> s \<lparr> bronze_tables :=
                              (bronze_tables s)(table_name := bronze_files s table_name) \<rparr>
               | Some t \<Rightarrow> s)
      in (s, height df))"

subsection \<open>Promotion to the silver layer\<close>

definition and_then :: "py_error + 'a \<Rightarrow> ('a \<Rightarrow> py_error + 'b) \<Rightarrow> py_error + 'b" where
  "and_then r f = (case r of Inl e \<Rightarrow> Inl e | Inr x \<Rightarrow> f x)"

text \<open>Step 2: trim every string column, by name, in the order of the columns.\<close>

fun strip_string_columns :: "string list \<Rightarrow> dataframe \<Rightarrow> dataframe" where
  "strip_string_columns [] df = df"
| "strip_string_columns (col # cols) df =
     strip_string_columns cols
       (case col_index col (columns df) of
          None \<Rightarrow> df
        | Some i \<Rightarrow> if snd (columns df ! i) = Utf8 then strip_column i df else df)"

text \<open>Step 3: \<open>rename\<close> to lower case; polars refuses two columns of one name.\<close>

definition rename_lower :: "dataframe \<Rightarrow> py_error + dataframe" where
  "rename_lower df =
     (if distinct (map (\<lambda>c. lower (fst c)) (columns df))
      then Inr (df \<lparr> columns := map (\<lambda>c. (lower (fst c), snd c)) (columns df) \<rparr>)
      else Inl DuplicateError)"

text \<open>
  Step 4: \<open>str.strptime(pl.Date, "%Y-%m-%d", strict=False)\<close> on the column
  \<open>order_date\<close>: a string that does not parse becomes null. The parser is the
  library's and is a parameter; the \<open>str\<close> namespace raises on a column that is
  not a string column.
\<close>

definition strptime_cell :: "(string \<Rightarrow> int option) \<Rightarrow> cell \<Rightarrow> cell" where
  "strptime_cell strptime v =
     (case cell_str v of
        None \<Rightarrow> Null
      | Some s \<Rightarrow> (case strptime s of None \<Rightarrow> Null | Some d \<Rightarrow> DateV d))"

definition set_dtype :: "nat \<Rightarrow> dtype \<Rightarrow> (string \<times> dtype) list \<Rightarrow> (string \<times> dtype) list" where
  "set_dtype i d cols = cols[i := (fst (cols ! i), d)]"

definition parse_order_date :: "(string \<Rightarrow> int option) \<Rightarrow> dataframe \<Rightarrow> py_error + dataframe" where
  "parse_order_date strptime df =
     (case col_index ''order_date'' (columns df) of
        None \<Rightarrow> Inr df
      | Some i \<Rightarrow>
          if snd (columns df ! i) = Utf8
          then Inr \<lparr> columns = set_dtype i Date (columns df),
                     rows = map (\<lambda>r. r[i := strptime_cell strptime (cell_at i r)]) (rows df) \<rparr>
          else Inl InvalidOperationError)"

text \<open>Step 5: drop the rows with a null in a critical column that is present.\<close>

fun drop_critical_nulls :: "string list \<Rightarrow> dataframe \<Rightarrow> dataframe" where
  "drop_critical_nulls [] df = df"
| "drop_critical_nulls (col # cols) df =
     drop_critical_nulls cols
       (case col_index col (columns df) of
          None \<Rightarrow> df
        | Some i \<Rightarrow> filter_rows (\<lambda>r. cell_at i r \<noteq> Null) df)"

text \<open>
  Step 6: \<open>filter\<close> on a comparison with numbers, when the column is present.
  A null compares to null and the row goes; a date is compared by its day number;
  a string column raises.
\<close>

definition filter_numeric :: "string \<Rightarrow> (real \<Rightarrow> bool) \<Rightarrow> dataframe \<Rightarrow> py_error + dataframe" where
  "filter_numeric col P df =
     (case col_index col (columns df) of
        None \<Rightarrow> Inr df
      | Some i \<Rightarrow>
          if snd (columns df ! i) = Utf8 then Inl InvalidOperationError
          else Inr (filter_rows
                 (\<lambda>r. case cell_ord (cell_at i r) of None \<Rightarrow> False | Some x \<Rightarrow> P x) df))"

definition apply_silver_transformations ::
  "(row list \<Rightarrow> row list) \<Rightarrow> (string \<Rightarrow> int option) \<Rightarrow> dataframe \<Rightarrow> py_error + dataframe" where
  "apply_silver_transformations uniq strptime df =
     (let df = df \<lparr> rows := uniq (rows df) \<rparr>;
          df = strip_string_columns (map fst (columns df)) df
      in and_then (rename_lower df) (\<lambda>df.
         and_then (parse_order_date strptime df) (\<lambda>df.
         let df = drop_critical_nulls [''customer_id'', ''order_id'', ''order_date''] df
         in and_then (filter_numeric ''quantity'' (\<lambda>x. x > 0) df) (\<lambda>df.
            and_then (filter_numeric ''unit_price'' (\<lambda>x. x > 0) df) (\<lambda>df.
            and_then (filter_numeric ''customer_age'' (\<lambda>x. x \<ge> 18 \<and> x \<le> 100) df) (\<lambda>df.
            filter_numeric ''satisfaction_score'' (\<lambda>x. x \<ge> 1 \<and> x \<le> 10) df))))))"

text \<open>
  \<open>promote_to_silver\<close> reads the bronze table (DuckDB raises when there is
  none), transforms it, writes the silver parquet file and replaces the silver
  table; it returns the frame.
\<close>

definition promote_to_silver ::
  "(row list \<Rightarrow> row list) \<Rightarrow> (string \<Rightarrow> int option) \<Rightarrow> db \<Rightarrow> string \<Rightarrow> string
     \<Rightarrow> py_error + (db \<times> dataframe)" where
  "promote_to_silver uniq strptime s bronze_table silver_table =
     (case bronze_tables s bronze_table of
        None \<Rightarrow> Inl CatalogError
      | Some df \<Rightarrow>
          and_then (apply_silver_transformations uniq strptime df) (\<lambda>df.
            Inr (s \<lparr> silver_files := (silver_files s)(silver_table \<mapsto> df),
                     silver_tables := (silver_tables s)(silver_table \<mapsto> df) \<rparr>, df)))"

subsection \<open>Gold aggregates\<close>

text \<open>
  The four aggregation queries are SQL texts over \<open>silver.{silver_table}\<close>.
  What DuckDB answers, a frame or an error, is the engine's matter: \<open>execute\<close>
  is a parameter that is given the query and the silver tables it can read. The
  query is the one step of \<open>create_gold_aggregate\<close> that can fail here; opening
  and closing the connection, outside the \<open>try\<close> blocks, are not modelled.
\<close>

datatype query =
    DailySales string
  | CustomerLtv string
  | ProductPerformance string
  | RegionalAnalytics string

definition create_gold_aggregate ::
  "(query \<Rightarrow> (string \<rightharpoonup> dataframe) \<Rightarrow> py_error + dataframe) \<Rightarrow> db \<Rightarrow> query \<Rightarrow> string
     \<Rightarrow> py_error + (db \<times> dataframe)" where
  "create_gold_aggregate execute s q table_name =
     and_then (execute q (silver_tables s)) (\<lambda>df.
       Inr (s \<lparr> gold_files := (gold_files s)(table_name \<mapsto> df),
                gold_tables := (gold_tables s)(table_name \<mapsto> df) \<rparr>, df))"

text \<open>
  One \<open>if key in aggregations: try: ... except Exception as e: logger.error(...)\<close>
  block of \<open>create_gold_aggregations\<close>: on an error nothing is added to \<open>results\<close>.
\<close>

definition try_aggregate ::
  "(query \<Rightarrow> (string \<rightharpoonup> dataframe) \<Rightarrow> py_error + dataframe) \<Rightarrow> string list
     \<Rightarrow> string \<Rightarrow> query \<Rightarrow> string \<Rightarrow> db \<times> (string \<times> nat) list
     \<Rightarrow> db \<times> (string \<times> nat) list" where
  "try_aggregate execute aggregations key q table_name st =
     (if key \<in> set aggregations then
        (case create_gold_aggregate execute (fst st) q table_name of
           Inl e \<Rightarrow> st
         | Inr (s, df) \<Rightarrow> (s, snd st @ [(table_name, height df)]))
      else st)"

definition create_gold_aggregations ::
  "(query \<Rightarrow> (string \<rightharpoonup> dataframe) \<Rightarrow> py_error + dataframe) \<Rightarrow> db \<Rightarrow> string
     \<Rightarrow> string list \<Rightarrow> db \<times> (string \<times> nat) list" where
  "create_gold_aggregations execute s silver_table aggregations =
     (let st = (s, []);
          st = try_aggregate execute aggregations ''daily_sales''
                 (DailySales silver_table) ''daily_sales'' st;
          st = try_aggregate execute aggregations ''customer_lifetime_value''
                 (CustomerLtv silver_table) ''customer_ltv'' st;
          st = try_aggregate execute aggregations ''product_performance''
                 (ProductPerformance silver_table) ''product_performance'' st;
          st = try_aggregate execute aggregations ''regional_analytics''
                 (RegionalAnalytics silver_table) ''regional_analytics'' st
      in st)"

subsection \<open>Notions used in the statements about the store\<close>

text \<open>Two frames with the same columns and the same rows, in whatever order.\<close>

definition same_rows :: "dataframe \<Rightarrow> dataframe \<Rightarrow> bool" where
  "same_rows a b = (columns a = columns b \<and> mset (rows a) = mset (rows b))"

text \<open>
  What one block of \<open>create_gold_aggregations\<close> reports when its query is run
  on the silver tables of the store the task started with.
\<close>

definition reported ::
  "(query \<Rightarrow> (string \<rightharpoonup> dataframe) \<Rightarrow> py_error + dataframe) \<Rightarrow> db \<Rightarrow> string list
     \<Rightarrow> string \<Rightarrow> query \<Rightarrow> string \<Rightarrow> (string \<times> nat) list" where
  "reported execute s aggregations key q table_name =
     (if key \<in> set aggregations
      then (case execute q (silver_tables s) of
              Inl e \<Rightarrow> []
            | Inr df \<Rightarrow> [(table_name, height df)])
      else [])"

section \<open>Schema validation: validation/schema\_validation.py and main.py\<close>

text \<open>
  \<open>main.py\<close> works on a pandas frame read by \<open>pd.read_csv\<close>, whose index is
  the range of the row positions; the frame is modelled as above, the label of a
  row being its position. The schema is pandera's \<open>DataFrameSchema\<close> of the
  source: twenty columns, none nullable, and one check on the whole frame.
\<close>

datatype check = Ge real | Le real | Isin "string list" | Str_matches_id

text \<open>
  The pattern of \<open>Customer_ID\<close> is \<open>^[a-zA-Z0-9_-]+$\<close>; with \<open>re.match\<close> the
  \<open>$\<close> also matches before one newline at the end.
\<close>

definition is_id_char :: "char \<Rightarrow> bool" where
  "is_id_char c =
     (let n = (of_char c :: nat)
      in (48 \<le> n \<and> n \<le> 57) \<or> (65 \<le> n \<and> n \<le> 90) \<or> (97 \<le> n \<and> n \<le> 122)
         \<or> n = 95 \<or> n = 45)"

definition matches_id :: "string \<Rightarrow> bool" where
  "matches_id s =
     (let t = (if s \<noteq> [] \<and> last s = CHR 0x0A then butlast s else s)
      in t \<noteq> [] \<and> list_all is_id_char t)"

fun check_holds :: "check \<Rightarrow> cell \<Rightarrow> bool" where
  "check_holds (Ge x) v = (case cell_num v of None \<Rightarrow> False | Some y \<Rightarrow> y \<ge> x)"
| "check_holds (Le x) v = (case cell_num v of None \<Rightarrow> False | Some y \<Rightarrow> y \<le> x)"
| "check_holds (Isin xs) v = (case cell_str v of None \<Rightarrow> False | Some s \<Rightarrow> s \<in> set xs)"
| "check_holds Str_matches_id v = (case cell_str v of None \<Rightarrow> False | Some s \<Rightarrow> matches_id s)"

record column_schema =
  cs_name :: string
  cs_dtype :: dtype
  cs_checks :: "check list"

definition mk_column :: "string \<Rightarrow> dtype \<Rightarrow> check list \<Rightarrow> column_schema" where
  "mk_column n d cs = \<lparr> cs_name = n, cs_dtype = d, cs_checks = cs \<rparr>"

definition schema :: "column_schema list" where
  "schema =
     [mk_column ''Customer_ID'' Utf8 [Str_matches_id],
      mk_column ''Age'' Int64 [Ge 18, Le 100],
      mk_column ''Location'' Utf8 [Isin [''Urban'', ''Suburban'', ''Rural'']],
      mk_column ''Income_Level'' Utf8 [Isin [''Low'', ''Middle'', ''High'']],
      mk_column ''Total_Transactions'' Int64 [Ge 0],
      mk_column ''Avg_Transaction_Value'' Float64 [Ge 1],
      mk_column ''Max_Transaction_Value'' Float64 [Ge 0],
      mk_column ''Min_Transaction_Value'' Float64 [Ge 0],
      mk_column ''Total_Spent'' Float64 [Ge 0],
      mk_column ''Active_Days'' Int64 [Ge 0],
      mk_column ''Last_Transaction_Days_Ago'' Int64 [Ge 0],
      mk_column ''Loyalty_Points_Earned'' Int64 [Ge 0],
      mk_column ''Referral_Count'' Int64 [Ge 0],
      mk_column ''Cashback_Received'' Float64 [Ge 0],
      mk_column ''App_Usage_Frequency'' Utf8 [Isin [''Monthly'', ''Weekly'', ''Daily'']],
      mk_column ''Preferred_Payment_Method'' Utf8 [],
      mk_column ''Support_Tickets_Raised'' Int64 [Ge 0],
      mk_column ''Issue_Resolution_Time'' Float64 [Ge 0],
      mk_column ''Customer_Satisfaction_Score'' Int64 [Ge 0, Le 10],
      mk_column ''LTV'' Float64 [Ge 0]]"

text \<open>
  A failure case of \<open>SchemaErrors.failure_cases\<close>: the column, the check and, in
  the column \<open>index\<close> of that table, the label of the failing row (none for a
  failure of the frame as a whole, such as a missing column).
\<close>

datatype check_id =
    Column_in_dataframe
  | Dtype_check
  | Not_nullable
  | Column_check check
  | Frame_check

record failure_case =
  fc_column :: string
  fc_check :: check_id
  fc_index :: "nat option"

definition rows_where :: "(cell \<Rightarrow> bool) \<Rightarrow> cell list \<Rightarrow> nat list" where
  "rows_where P vs = filter (\<lambda>j. P (vs ! j)) [0 ..< length vs]"

text \<open>
  In lazy mode every value of a column is checked: a null is a failure of
  \<open>nullable=False\<close>, and every check is run on the values that are not null. A
  column of another dtype is reported once for its dtype, and its values are
  checked all the same.
\<close>

definition column_failure_cases :: "dataframe \<Rightarrow> column_schema \<Rightarrow> failure_case list" where
  "column_failure_cases df cs =
     (case col_index (cs_name cs) (columns df) of
        None \<Rightarrow> [\<lparr> fc_column = cs_name cs, fc_check = Column_in_dataframe, fc_index = None \<rparr>]
      | Some i \<Rightarrow>
          let vs = col_values df i
          in (if snd (columns df ! i) \<noteq> cs_dtype cs
              then [\<lparr> fc_column = cs_name cs, fc_check = Dtype_check, fc_index = None \<rparr>]
              else [])
             @ map (\<lambda>j. \<lparr> fc_column = cs_name cs, fc_check = Not_nullable, fc_index = Some j \<rparr>)
                 (rows_where (\<lambda>v. v = Null) vs)
             @ concat (map (\<lambda>c.
                   map (\<lambda>j. \<lparr> fc_column = cs_name cs, fc_check = Column_check c,
                               fc_index = Some j \<rparr>)
                     (rows_where (\<lambda>v. v \<noteq> Null \<and> \<not> check_holds c v) vs))
                   (cs_checks cs)))"

text \<open>
  \<open>check_min_less_than_max\<close> compares two columns row by row (a comparison with
  a missing value is false in pandas) and raises KeyError when one of them is not
  there. How pandera turns its answer into failure cases is the library's matter,
  the parameter \<open>report\<close>.
\<close>

definition check_min_less_than_max :: "dataframe \<Rightarrow> py_error + bool list" where
  "check_min_less_than_max df =
     (case (col_index ''Min_Transaction_Value'' (columns df),
            col_index ''Max_Transaction_Value'' (columns df)) of
        (Some i, Some j) \<Rightarrow>
          Inr (map (\<lambda>r. case (cell_num (cell_at i r), cell_num (cell_at j r)) of
                          (Some x, Some y) \<Rightarrow> x \<le> y
                        | _ \<Rightarrow> False) (rows df))
      | _ \<Rightarrow> Inl KeyError)"

datatype schema_error = SchemaErrors "failure_case list" | SchemaError failure_case

definition validate_schema ::
  "(dataframe \<Rightarrow> py_error + bool list \<Rightarrow> failure_case list) \<Rightarrow> dataframe \<Rightarrow> bool
     \<Rightarrow> schema_error + dataframe" where
  "validate_schema report df lazy =
     (case concat (map (column_failure_cases df) schema)
             @ report df (check_min_less_than_max df) of
        [] \<Rightarrow> Inr df
      | fc # fcs \<Rightarrow> if lazy then Inl (SchemaErrors (fc # fcs)) else Inl (SchemaError fc))"

text \<open>
  The schema step of \<open>main.py\<close>. The table \<open>err.failure_cases\<close> has an index of
  its own, the positions \<open>0 .. k-1\<close> of its \<open>k\<close> lines; \<open>df.index.difference\<close> of
  it is the labels of \<open>df\<close> that are not among those positions, and \<open>df.loc\<close>
  picks the rows with these labels. The step returns the frame the pipeline goes
  on with and the failure cases it saved, if any. A \<open>SchemaError\<close> is not caught.
\<close>

text \<open>
  The labels \<open>df.loc\<close> is given here are labels of \<open>df\<close>; a label the frame
  does not have, on which pandas raises, is skipped.
\<close>

definition index_difference :: "nat list \<Rightarrow> nat list \<Rightarrow> nat list" where
  "index_difference labels other = filter (\<lambda>l. l \<notin> set other) labels"

definition loc :: "dataframe \<Rightarrow> nat list \<Rightarrow> dataframe" where
  "loc df labels = df \<lparr> rows := map (\<lambda>l. rows df ! l) (filter (\<lambda>l. l < height df) labels) \<rparr>"

definition schema_validation_step ::
  "(dataframe \<Rightarrow> py_error + bool list \<Rightarrow> failure_case list) \<Rightarrow> dataframe
     \<Rightarrow> schema_error + (dataframe \<times> failure_case list option)" where
  "schema_validation_step report df =
     (case validate_schema report df True of
        Inr validated \<Rightarrow> Inr (validated, None)
      | Inl (SchemaErrors failure_cases) \<Rightarrow>
          (let valid_indexes =
                 index_difference [0 ..< height df] [0 ..< length failure_cases];
               df_valid = loc df valid_indexes
           in Inr (df_valid, Some failure_cases))
      | Inl (SchemaError fc) \<Rightarrow> Inl (SchemaError fc))"

section \<open>BusinessRuleValidator.validate\_all\<close>

text \<open>
  A mask is a polars boolean series: true, false or null for every row. \<open>&\<close>
  and \<open>~\<close> are the three-valued ones, and \<open>filter\<close> keeps the rows whose mask is
  true. \<open>(~col_mask).to_list()\<close> is a Python list of \<open>True\<close>, \<open>False\<close> and
  \<open>None\<close>: \<open>any\<close> of it is true when it holds a \<open>True\<close>, and \<open>sum\<close> of it
  raises TypeError when it holds a \<open>None\<close>.
\<close>

type_synonym mask = "bool option list"

fun and3 :: "bool option \<Rightarrow> bool option \<Rightarrow> bool option" where
  "and3 (Some False) b = Some False"
| "and3 (Some True) b = b"
| "and3 None (Some False) = Some False"
| "and3 None (Some True) = None"
| "and3 None None = None"

record failed_record =
  fr_rule :: string
  fr_column :: string
  fr_count :: nat

definition rule_record :: "string \<Rightarrow> string \<Rightarrow> mask \<Rightarrow> py_error + failed_record list" where
  "rule_record rule col col_mask =
     (let failed_idx = map (map_option Not) col_mask
      in if list_ex (\<lambda>b. b = Some True) failed_idx
         then (if list_ex (\<lambda>b. b = None) failed_idx then Inl TypeError
               else Inr [\<lparr> fr_rule = rule, fr_column = col,
                           fr_count = count_where (\<lambda>b. b = Some True) failed_idx \<rparr>])
         else Inr [])"

definition apply_rule ::
  "string \<Rightarrow> string \<Rightarrow> mask \<Rightarrow> failed_record list \<times> mask
     \<Rightarrow> py_error + (failed_record list \<times> mask)" where
  "apply_rule rule col col_mask st =
     and_then (rule_record rule col col_mask) (\<lambda>new.
       Inr (fst st @ new, map2 and3 (snd st) col_mask))"

fun not_null_rules ::
  "dataframe \<Rightarrow> string list \<Rightarrow> failed_record list \<times> mask
     \<Rightarrow> py_error + (failed_record list \<times> mask)" where
  "not_null_rules df [] st = Inr st"
| "not_null_rules df (col # cols) st =
     (case col_index col (columns df) of
        None \<Rightarrow> not_null_rules df cols st
      | Some i \<Rightarrow>
          and_then
            (apply_rule (''NOT_NULL_'' @ col) col
               (map (\<lambda>r. Some (cell_at i r \<noteq> Null)) (rows df)) st)
            (not_null_rules df cols))"

text \<open>
  Rule 2 compares a series with a number, \<open>df[col] > 0\<close>, and has no test of
  the dtype. On a numeric column the mask is the comparison of each value, null
  on a null. On a column of another dtype the library decides: it raises, or it
  compares each value in its own way (a string with the text of the number, in
  the versions that convert the number to the column's type). That is the
  parameter \<open>gt_zero_other\<close>, by dtype.
\<close>

definition gt_zero_mask ::
  "(dtype \<Rightarrow> py_error + (cell \<Rightarrow> bool)) \<Rightarrow> dtype \<Rightarrow> cell list \<Rightarrow> py_error + mask" where
  "gt_zero_mask gt_zero_other d vs =
     (if is_numeric d
      then Inr (map (\<lambda>v. map_option (\<lambda>x. x > 0) (cell_num v)) vs)
      else and_then (gt_zero_other d) (\<lambda>gt.
             Inr (map (\<lambda>v. if v = Null then None else Some (gt v)) vs)))"

fun positive_rules ::
  "(dtype \<Rightarrow> py_error + (cell \<Rightarrow> bool)) \<Rightarrow> dataframe \<Rightarrow> string list
     \<Rightarrow> failed_record list \<times> mask \<Rightarrow> py_error + (failed_record list \<times> mask)" where
  "positive_rules gt_zero_other df [] st = Inr st"
| "positive_rules gt_zero_other df (col # cols) st =
     (case col_index col (columns df) of
        None \<Rightarrow> positive_rules gt_zero_other df cols st
      | Some i \<Rightarrow>
          and_then (gt_zero_mask gt_zero_other (snd (columns df ! i)) (col_values df i))
            (\<lambda>col_mask.
               and_then (apply_rule (''POSITIVE_'' @ col) col col_mask st)
                 (positive_rules gt_zero_other df cols)))"

text \<open>
  Rule 3 parses \<open>order_date\<close> when it is a string column, which replaces \<open>df\<close>,
  and compares the dates with today's, \<open>datetime.now().date()\<close>, a parameter.
\<close>

definition date_le :: "int \<Rightarrow> cell \<Rightarrow> bool option" where
  "date_le today v = (case v of DateV d \<Rightarrow> Some (d \<le> today) | _ \<Rightarrow> None)"

definition date_rule ::
  "int \<Rightarrow> (string \<Rightarrow> int option) \<Rightarrow> dataframe \<Rightarrow> failed_record list \<times> mask
     \<Rightarrow> py_error + (dataframe \<times> failed_record list \<times> mask)" where
  "date_rule today strptime df st =
     (case col_index ''order_date'' (columns df) of
        None \<Rightarrow> Inr (df, st)
      | Some i \<Rightarrow>
          and_then
            (if snd (columns df ! i) = Utf8 then parse_order_date strptime df else Inr df)
            (\<lambda>df. if snd (columns df ! i) \<noteq> Date then Inl InvalidOperationError
                   else
                     and_then
                       (apply_rule ''VALID_DATE_RANGE'' ''order_date''
                          (map (\<lambda>r. date_le today (cell_at i r)) (rows df)) st)
                       (\<lambda>st. Inr (df, st))))"

definition run_rules ::
  "(dtype \<Rightarrow> py_error + (cell \<Rightarrow> bool)) \<Rightarrow> int \<Rightarrow> (string \<Rightarrow> int option) \<Rightarrow> dataframe
     \<Rightarrow> py_error + (dataframe \<times> failed_record list \<times> mask)" where
  "run_rules gt_zero_other today strptime df =
     and_then (not_null_rules df [''customer_id'', ''order_id'', ''order_date'']
                 ([], replicate (height df) (Some True))) (\<lambda>st.
     and_then (positive_rules gt_zero_other df
                 [''quantity'', ''unit_price'', ''total_amount''] st) (\<lambda>st.
     date_rule today strptime df st))"

definition filter_by_mask :: "dataframe \<Rightarrow> mask \<Rightarrow> dataframe" where
  "filter_by_mask df valid_mask =
     df \<lparr> rows := map fst (filter (\<lambda>p. snd p = Some True) (zip (rows df) valid_mask)) \<rparr>"

definition validate_all ::
  "(dtype \<Rightarrow> py_error + (cell \<Rightarrow> bool)) \<Rightarrow> int \<Rightarrow> (string \<Rightarrow> int option) \<Rightarrow> dataframe
     \<Rightarrow> py_error + (dataframe \<times> failed_record list)" where
  "validate_all gt_zero_other today strptime df =
     and_then (run_rules gt_zero_other today strptime df)
       (\<lambda>(df, failed_records, valid_mask).
          Inr (filter_by_mask df valid_mask, failed_records))"

subsection \<open>Example data used in the statements about validation\<close>

text \<open>
  The columns of a frame that has the schema's columns and dtypes, and a customer
  row that passes every check when its id, age and location do.
\<close>

definition wallet_columns :: "(string \<times> dtype) list" where
  "wallet_columns = map (\<lambda>cs. (cs_name cs, cs_dtype cs)) schema"

definition wallet_row :: "string \<Rightarrow> int \<Rightarrow> string \<Rightarrow> row" where
  "wallet_row customer_id age location =
     [StrV customer_id, IntV age, StrV location, StrV ''Low'', IntV 5, FloatV 10, FloatV 20,
      FloatV 5, FloatV 50, IntV 3, IntV 1, IntV 0, IntV 0, FloatV 0, StrV ''Daily'',
      StrV ''Card'', IntV 0, FloatV 1, IntV 7, FloatV 100]"

section \<open>Properties of the quality score\<close>

lemma penalize_issues_sum:
  "penalize_issues s is =
     s - 10 * real (length (filter (\<lambda>i. severity i = ''HIGH'') is))
       - 5 * real (length (filter (\<lambda>i. severity i = ''MEDIUM'') is))
       - 2 * real (length (filter (\<lambda>i. severity i = ''LOW'') is))"
  by (induction "is" arbitrary: s) (auto simp: issue_penalty_def)

lemma penalize_nulls_sum:
  "penalize_nulls s cs =
     s - 5 * real (length (filter (\<lambda>c. null_pct_of (snd c) > 50) cs))
       - 2 * real (length (filter (\<lambda>c. 20 < null_pct_of (snd c) \<and> null_pct_of (snd c) \<le> 50) cs))"
  by (induction cs arbitrary: s) (auto simp: null_penalty_def null_pct_of_def Let_def)

lemma penalize_issues_le: "penalize_issues s is \<le> s"
  by (simp add: penalize_issues_sum)

lemma penalize_nulls_le: "penalize_nulls s cs \<le> s"
  by (simp add: penalize_nulls_sum)

text \<open>
  C3. The score computed by \<open>calculate_quality_score\<close> is 100 minus 10 per HIGH
  issue, 5 per MEDIUM issue and 2 per LOW issue (any other severity, INFO among
  them, subtracts nothing), minus 5 per column whose null percentage is above 50
  and 2 per column whose null percentage is in (20, 50], both penalties applying
  to the same column, clamped to [0, 100].
\<close>

theorem calculate_quality_score_formula:
  "calculate_quality_score p = spec_quality_score p"
proof -
  let ?is = "case issues_detected p of None \<Rightarrow> [] | Some is \<Rightarrow> is"
  let ?cs = "case profile_columns p of None \<Rightarrow> [] | Some cs \<Rightarrow> cs"
  have le: "penalize_nulls (penalize_issues 100 ?is) ?cs \<le> 100"
    using penalize_nulls_le [of "penalize_issues 100 ?is" ?cs]
          penalize_issues_le [of 100 ?is] by linarith
  have "calculate_quality_score p = max 0 (penalize_nulls (penalize_issues 100 ?is) ?cs)"
    by (simp add: calculate_quality_score_def Let_def)
  also have "\<dots> = max 0 (min 100 (penalize_nulls (penalize_issues 100 ?is) ?cs))"
    using le by simp
  also have "\<dots> = spec_quality_score p"
    by (simp only: penalize_nulls_sum penalize_issues_sum spec_quality_score_def
          count_severity_def count_null_above_50_def count_null_20_to_50_def)
  finally show ?thesis .
qed

subsection \<open>The score of a profiled frame\<close>

lemma calculate_quality_score_bounds:
  "0 \<le> calculate_quality_score p \<and> calculate_quality_score p \<le> 100"
proof -
  let ?is = "case issues_detected p of None \<Rightarrow> [] | Some is \<Rightarrow> is"
  let ?cs = "case profile_columns p of None \<Rightarrow> [] | Some cs \<Rightarrow> cs"
  have "penalize_nulls (penalize_issues 100 ?is) ?cs \<le> 100"
    using penalize_nulls_le [of "penalize_issues 100 ?is" ?cs]
          penalize_issues_le [of 100 ?is] by linarith
  then show ?thesis
    by (simp add: calculate_quality_score_def Let_def)
qed

lemma col_index_found:
  "c \<in> fst ` set cs \<Longrightarrow> \<exists>i. col_index c cs = Some i"
  by (induction cs) force+

lemma profile_column_returns:
  assumes "col \<in> fst ` set (columns df)" and "rows df \<noteq> []"
  shows "\<exists>cp. profile_column num_ok str_ok df col = Inr cp \<and> null_percentage cp \<noteq> None"
proof -
  obtain i where "col_index col (columns df) = Some i"
    using col_index_found [OF assms(1)] by blast
  then show ?thesis using assms(2)
    by (simp add: profile_column_def height_def Let_def)
qed

lemma detect_column_issues_returns:
  "null_percentage cp \<noteq> None \<Longrightarrow> \<exists>is. detect_column_issues col cp = Inr is"
  by (auto simp: detect_column_issues_def)

lemma profile_each_column_returns:
  assumes "rows df \<noteq> []"
  shows "set cols \<subseteq> fst ` set (columns df) \<Longrightarrow>
         \<exists>r. profile_each_column num_ok str_ok df cols = Inr r"
proof (induction cols)
  case Nil
  show ?case by simp
next
  case (Cons col cols)
  then have "col \<in> fst ` set (columns df)" by simp
  from profile_column_returns [OF this assms, of num_ok str_ok]
  obtain cp where cp: "profile_column num_ok str_ok df col = Inr cp"
    "null_percentage cp \<noteq> None" by blast
  from detect_column_issues_returns [OF cp(2), of col]
  obtain "is" where i: "detect_column_issues col cp = Inr is" by blast
  from Cons obtain r where "profile_each_column num_ok str_ok df cols = Inr r" by auto
  with cp(1) i show ?case by (cases r) simp
qed

lemma profile_dataset_returns:
  assumes "rows df \<noteq> []"
  shows "\<exists>p. profile_dataset num_ok str_ok df name = Inr p"
proof -
  have "set (map fst (columns df)) \<subseteq> fst ` set (columns df)" by simp
  from profile_each_column_returns [OF assms this, of num_ok str_ok]
  obtain r where "profile_each_column num_ok str_ok df (map fst (columns df)) = Inr r" by blast
  then show ?thesis by (cases r) (simp add: profile_dataset_def)
qed

lemma profile_dataset_no_rows:
  assumes "columns df \<noteq> []" and "rows df = []"
  shows "profile_dataset num_ok str_ok df name = Inl ZeroDivisionError"
proof -
  obtain c cs where cs: "columns df = c # cs" using assms(1) by (cases "columns df") auto
  have "profile_column num_ok str_ok df (fst c) = Inl ZeroDivisionError"
    using cs assms(2) by (simp add: profile_column_def height_def)
  then show ?thesis using cs by (simp add: profile_dataset_def)
qed

text \<open>
  C4. For every dataset the quality score computed from its profile lies in
  [0, 100]. On a frame that has a column and no row (a CSV file with only its
  header line) no score is computed at all: \<open>_profile_column\<close> divides the null
  count by \<open>len(df)\<close>, and the report ends in a ZeroDivisionError.
\<close>

theorem report_quality_score_header_only:
  "report_quality_score (\<lambda>vs. True) (\<lambda>vs. True)
     \<lparr> columns = [(''id'', Int64)], rows = [] \<rparr> ''orders'' = Inl ZeroDivisionError"
  by (simp add: report_quality_score_def profile_dataset_no_rows)

text \<open>
  Whatever the profile, \<open>calculate_quality_score\<close> itself returns a score between
  0 and 100.
\<close>

theorem calculate_quality_score_in_range:
  "0 \<le> calculate_quality_score p \<and> calculate_quality_score p \<le> 100"
  by (rule calculate_quality_score_bounds)

text \<open>
  On a frame with at least one row the profile is produced, whatever the library
  calls of the statistics blocks do, and its score is between 0 and 100.
\<close>

theorem report_quality_score_nonempty:
  assumes "rows df \<noteq> []"
  shows "\<exists>s. report_quality_score num_ok str_ok df name = Inr s \<and> 0 \<le> s \<and> s \<le> 100"
proof -
  obtain p where "profile_dataset num_ok str_ok df name = Inr p"
    using profile_dataset_returns [OF assms] by blast
  then show ?thesis using calculate_quality_score_bounds [of p]
    by (simp add: report_quality_score_def)
qed

theorem report_quality_score_nonempty_witness:
  "\<exists>s. report_quality_score (\<lambda>vs. True) (\<lambda>vs. True)
          \<lparr> columns = [(''id'', Int64), (''age'', Int64)],
            rows = [[IntV 1, IntV 25], [IntV 2, Null]] \<rparr> ''orders'' = Inr s
        \<and> 0 \<le> s \<and> s \<le> 100"
  using report_quality_score_nonempty
    [of "\<lparr> columns = [(''id'', Int64), (''age'', Int64)],
           rows = [[IntV 1, IntV 25], [IntV 2, Null]] \<rparr>" "\<lambda>vs. True" "\<lambda>vs. True" "''orders''"]
  by simp

section \<open>Properties of remediation\<close>

subsection \<open>The branches of one issue\<close>

lemma remediate_issue_negative:
  assumes "issue_type issue = ''NEGATIVE_VALUES''"
  shows "remediate_issue uniq df issue =
     (case col_index (issue_column issue) (columns df) of
        None \<Rightarrow> Inr (df, None)
      | Some i \<Rightarrow>
          if snd (columns df ! i) = Utf8 then Inl InvalidOperationError
          else Inr (filter_rows (\<lambda>r. is_ge_zero (cell_at i r)) df,
                 Some \<lparr> action_issue = issue, action_name = ''FILTERED_NEGATIVE_VALUES'',
                        action_column = Some (issue_column issue),
                        rows_removed = Some (int (height df)
                          - int (height (filter_rows (\<lambda>r. is_ge_zero (cell_at i r)) df))),
                        reason_null_pct = None, status = ''SUCCESS'' \<rparr>))"
  using assms by (simp add: remediate_issue_def Let_def split: option.split)

lemma remediate_issue_high_null:
  assumes "issue_type issue = ''HIGH_NULL_RATE''"
  shows "remediate_issue uniq df issue =
     (case col_index (issue_column issue) (columns df) of
        None \<Rightarrow> Inr (df, None)
      | Some i \<Rightarrow>
          if height df = 0 then Inl ZeroDivisionError
          else if real (null_count (col_values df i)) / real (height df) * 100 > 80
               then Inr (drop_column i df,
                      Some \<lparr> action_issue = issue, action_name = ''DROPPED_COLUMN'',
                             action_column = Some (issue_column issue),
                             rows_removed = None,
                             reason_null_pct =
                               Some (real (null_count (col_values df i)) / real (height df) * 100),
                             status = ''SUCCESS'' \<rparr>)
               else Inr (df, None))"
  using assms by (simp add: remediate_issue_def Let_def split: option.split)

lemma col_index_less: "col_index c cs = Some i \<Longrightarrow> i < length cs"
  by (induction cs arbitrary: i) (auto split: if_splits option.splits)

lemma well_typed_cell:
  assumes "well_typed df" and "r \<in> set (rows df)" and "i < length (columns df)"
  shows "cell_of_dtype (snd (columns df ! i)) (cell_at i r)"
proof -
  have l2: "list_all2 (\<lambda>c v. cell_of_dtype (snd c) v) (columns df) r"
    using assms(1,2) by (simp add: well_typed_def list_all_iff)
  then have "length r = length (columns df)" by (simp add: list_all2_lengthD)
  with list_all2_nthD [OF l2 assms(3)] assms(3) show ?thesis
    by (simp add: cell_at_def)
qed

lemma numeric_cell_not_ge_zero:
  assumes "is_numeric d" and "cell_of_dtype d v"
  shows "is_ge_zero v \<longleftrightarrow> \<not> (is_negative v \<or> v = Null)"
  using assms
  by (cases v) (auto simp: is_numeric_def cell_of_dtype_def is_ge_zero_def is_negative_def)

lemma length_filter_compl:
  "int (length xs) - int (length (filter P xs)) = int (length (filter (\<lambda>x. \<not> P x) xs))"
  using sum_length_filter_compl [of P xs] by simp

text \<open>
  C7. A NEGATIVE\_VALUES issue that names a numeric column of the frame removes
  the rows whose value in that column is negative and, with them, the rows whose
  value there is null: \<open>filter(pl.col(col) >= 0)\<close> keeps a row only where the
  comparison is true. Every row with a value of at least 0 stays, and
  \<open>rows_removed\<close> counts the rows with a negative or a null value.
\<close>

theorem negative_values_removes_negative_and_null:
  assumes "issue_type issue = ''NEGATIVE_VALUES''"
      and "col_index (issue_column issue) (columns df) = Some i"
      and "is_numeric (snd (columns df ! i))"
      and "well_typed df"
  shows "remediate_issue uniq df issue =
           Inr (df \<lparr> rows := filter (\<lambda>r. \<not> (is_negative (cell_at i r) \<or> cell_at i r = Null))
                               (rows df) \<rparr>,
                Some \<lparr> action_issue = issue, action_name = ''FILTERED_NEGATIVE_VALUES'',
                       action_column = Some (issue_column issue),
                       rows_removed = Some (int (count_where
                          (\<lambda>r. is_negative (cell_at i r) \<or> cell_at i r = Null) (rows df))),
                       reason_null_pct = None, status = ''SUCCESS'' \<rparr>)"
proof -
  have i: "i < length (columns df)" using assms(2) by (rule col_index_less)
  have iff: "is_ge_zero (cell_at i r) \<longleftrightarrow> \<not> (is_negative (cell_at i r) \<or> cell_at i r = Null)"
    if "r \<in> set (rows df)" for r
    using numeric_cell_not_ge_zero [OF assms(3) well_typed_cell [OF assms(4) that i]] .
  have f: "filter (\<lambda>r. is_ge_zero (cell_at i r)) (rows df) =
           filter (\<lambda>r. \<not> (is_negative (cell_at i r) \<or> cell_at i r = Null)) (rows df)"
    by (rule filter_cong) (auto simp: iff)
  have g: "filter (\<lambda>r. \<not> is_ge_zero (cell_at i r)) (rows df) =
           filter (\<lambda>r. is_negative (cell_at i r) \<or> cell_at i r = Null) (rows df)"
    by (rule filter_cong) (auto simp: iff)
  have d: "snd (columns df ! i) \<noteq> Utf8"
    using assms(3) by (auto simp: is_numeric_def)
  show ?thesis
    using assms(2) d
    by (simp add: remediate_issue_negative [OF assms(1)] filter_rows_def height_def
          length_filter_compl f g count_where_def)
qed

theorem negative_values_removes_negative_and_null_witness:
  "remediate_issue remdups
     \<lparr> columns = [(''id'', Int64), (''age'', Int64)],
       rows = [[IntV 1, IntV 25], [IntV 2, IntV 0], [IntV 3, IntV (-5)]] \<rparr>
     (mk_issue ''HIGH'' ''NEGATIVE_VALUES'' ''age'')
   = Inr (\<lparr> columns = [(''id'', Int64), (''age'', Int64)],
            rows = [[IntV 1, IntV 25], [IntV 2, IntV 0]] \<rparr>,
          Some \<lparr> action_issue = mk_issue ''HIGH'' ''NEGATIVE_VALUES'' ''age'',
                 action_name = ''FILTERED_NEGATIVE_VALUES'',
                 action_column = Some ''age'', rows_removed = Some 1,
                 reason_null_pct = None, status = ''SUCCESS'' \<rparr>)"
  using negative_values_removes_negative_and_null
    [of "mk_issue ''HIGH'' ''NEGATIVE_VALUES'' ''age''"
        "\<lparr> columns = [(''id'', Int64), (''age'', Int64)],
           rows = [[IntV 1, IntV 25], [IntV 2, IntV 0], [IntV 3, IntV (-5)]] \<rparr>" 1 remdups]
  by (simp add: mk_issue_def is_numeric_def well_typed_def cell_of_dtype_def
        is_negative_def cell_at_def count_where_def)

text \<open>
  The property as the specification words it fails where the column holds a null: the row with
  the null age is removed with the negative one, and \<open>rows_removed\<close> is 2 where
  one value is negative.
\<close>

theorem negative_values_null_row_counterexample:
  "remediate_issue remdups
     \<lparr> columns = [(''id'', Int64), (''age'', Int64)],
       rows = [[IntV 1, IntV 25], [IntV 2, Null], [IntV 3, IntV (-5)]] \<rparr>
     (mk_issue ''HIGH'' ''NEGATIVE_VALUES'' ''age'')
   = Inr (\<lparr> columns = [(''id'', Int64), (''age'', Int64)], rows = [[IntV 1, IntV 25]] \<rparr>,
          Some \<lparr> action_issue = mk_issue ''HIGH'' ''NEGATIVE_VALUES'' ''age'',
                 action_name = ''FILTERED_NEGATIVE_VALUES'',
                 action_column = Some ''age'', rows_removed = Some 2,
                 reason_null_pct = None, status = ''SUCCESS'' \<rparr>)
   \<and> count_where is_negative
       (col_values \<lparr> columns = [(''id'', Int64), (''age'', Int64)],
          rows = [[IntV 1, IntV 25], [IntV 2, Null], [IntV 3, IntV (-5)]] \<rparr> 1) = 1"
  by code_simp

text \<open>
  C8. A HIGH\_NULL\_RATE issue that names a column of a frame with at least one
  row recomputes the column's null percentage on the frame as it is now. Above 80
  the column is dropped from the schema and from every row, and a SUCCESS action
  is logged; otherwise the frame is returned unchanged and no action is logged at
  all (the code has no SKIPPED status).
\<close>

theorem high_null_rate_drops_or_leaves:
  assumes "issue_type issue = ''HIGH_NULL_RATE''"
      and "col_index (issue_column issue) (columns df) = Some i"
      and "rows df \<noteq> []"
  shows "remediate_issue uniq df issue =
           (if real (null_count (col_values df i)) / real (height df) * 100 > 80
            then Inr (\<lparr> columns = drop_nth i (columns df),
                        rows = map (drop_nth i) (rows df) \<rparr>,
                      Some \<lparr> action_issue = issue, action_name = ''DROPPED_COLUMN'',
                             action_column = Some (issue_column issue),
                             rows_removed = None,
                             reason_null_pct =
                               Some (real (null_count (col_values df i)) / real (height df) * 100),
                             status = ''SUCCESS'' \<rparr>)
            else Inr (df, None))"
  using assms(2,3)
  by (simp add: remediate_issue_high_null [OF assms(1)] height_def drop_column_def)

theorem high_null_rate_drops_or_leaves_witness:
  "remediate_issue remdups
     \<lparr> columns = [(''id'', Int64), (''note'', Utf8)],
       rows = [[IntV 1, Null], [IntV 2, Null], [IntV 3, Null], [IntV 4, Null],
               [IntV 5, Null], [IntV 6, StrV ''x'']] \<rparr>
     (mk_issue ''HIGH'' ''HIGH_NULL_RATE'' ''note'')
   = Inr (\<lparr> columns = [(''id'', Int64)],
            rows = [[IntV 1], [IntV 2], [IntV 3], [IntV 4], [IntV 5], [IntV 6]] \<rparr>,
          Some \<lparr> action_issue = mk_issue ''HIGH'' ''HIGH_NULL_RATE'' ''note'',
                 action_name = ''DROPPED_COLUMN'',
                 action_column = Some ''note'', rows_removed = None,
                 reason_null_pct = Some (250 / 3), status = ''SUCCESS'' \<rparr>)"
  using high_null_rate_drops_or_leaves
    [of "mk_issue ''HIGH'' ''HIGH_NULL_RATE'' ''note''"
        "\<lparr> columns = [(''id'', Int64), (''note'', Utf8)],
           rows = [[IntV 1, Null], [IntV 2, Null], [IntV 3, Null], [IntV 4, Null],
                   [IntV 5, Null], [IntV 6, StrV ''x'']] \<rparr>" 1 remdups]
  by (simp add: mk_issue_def null_count_def col_values_def cell_at_def height_def
        drop_nth_def)

text \<open>
  The property as the specification words it fails where the null percentage is at most 80: with
  3 nulls in 4 rows the run returns the frame and an empty list of actions, so no
  SKIPPED action is recorded.
\<close>

theorem high_null_rate_skipped_counterexample:
  "auto_remediate remdups
     \<lparr> columns = [(''id'', Int64), (''note'', Utf8)],
       rows = [[IntV 1, Null], [IntV 2, Null], [IntV 3, Null], [IntV 4, StrV ''x'']] \<rparr>
     [mk_issue ''HIGH'' ''HIGH_NULL_RATE'' ''note'']
   = Inr (\<lparr> columns = [(''id'', Int64), (''note'', Utf8)],
            rows = [[IntV 1, Null], [IntV 2, Null], [IntV 3, Null], [IntV 4, StrV ''x'']] \<rparr>,
          [])"
  by code_simp

subsection \<open>Running remediation on its own output\<close>

text \<open>One issue of the loop, by the branch it takes.\<close>

lemma remediate_issue_by_kind:
  "remediate_issue uniq df i =
     (case kind_of i of
        Whitespace \<Rightarrow>
          (case col_index (issue_column i) (columns df) of
             None \<Rightarrow> Inr (df, None)
           | Some k \<Rightarrow>
               if snd (columns df ! k) = Utf8
               then Inr (strip_column k df, replayed (columns df) i)
               else Inr (df, None))
      | Duplicates \<Rightarrow>
          Inr (df \<lparr> rows := uniq (rows df) \<rparr>,
               Some \<lparr> action_issue = i, action_name = ''REMOVED_DUPLICATES'',
                      action_column = None,
                      rows_removed = Some (int (height df) - int (length (uniq (rows df)))),
                      reason_null_pct = None, status = ''SUCCESS'' \<rparr>)
      | Negative_values \<Rightarrow>
          (case col_index (issue_column i) (columns df) of
             None \<Rightarrow> Inr (df, None)
           | Some k \<Rightarrow>
               if snd (columns df ! k) = Utf8 then Inl InvalidOperationError
               else Inr (filter_rows (\<lambda>r. is_ge_zero (cell_at k r)) df,
                      Some \<lparr> action_issue = i, action_name = ''FILTERED_NEGATIVE_VALUES'',
                             action_column = Some (issue_column i),
                             rows_removed = Some (int (height df)
                               - int (height (filter_rows (\<lambda>r. is_ge_zero (cell_at k r)) df))),
                             reason_null_pct = None, status = ''SUCCESS'' \<rparr>))
      | High_null_rate \<Rightarrow>
          (case col_index (issue_column i) (columns df) of
             None \<Rightarrow> Inr (df, None)
           | Some k \<Rightarrow>
               if height df = 0 then Inl ZeroDivisionError
               else if column_null_pct df k > 80
                    then Inr (drop_column k df,
                           Some \<lparr> action_issue = i, action_name = ''DROPPED_COLUMN'',
                                  action_column = Some (issue_column i), rows_removed = None,
                                  reason_null_pct = Some (column_null_pct df k),
                                  status = ''SUCCESS'' \<rparr>)
                    else Inr (df, None))
      | Other \<Rightarrow> Inr (df, None))"
  by (simp add: remediate_issue_def kind_of_def replayed_def column_null_pct_def Let_def height_def
        split: option.split)


text \<open>Columns and cells after a column has been dropped or trimmed.\<close>

lemma col_index_name: "col_index c cs = Some i \<Longrightarrow> fst (cs ! i) = c"
  by (induction cs arbitrary: i) (auto split: if_splits option.splits)

lemma col_index_None_iff: "col_index c cs = None \<longleftrightarrow> c \<notin> fst ` set cs"
  by (induction cs) (auto split: option.splits)

lemma col_index_distinct:
  assumes "distinct (map fst cs)" and "k < length cs"
  shows "col_index (fst (cs ! k)) cs = Some k"
  using assms
proof (induction cs arbitrary: k)
  case Nil
  then show ?case by simp
next
  case (Cons p ps)
  show ?case
  proof (cases k)
    case 0
    then show ?thesis by simp
  next
    case (Suc j)
    with Cons.prems have j: "j < length ps" and d: "distinct (map fst ps)"
      and n: "fst p \<notin> fst ` set ps" by auto
    from j have "fst (ps ! j) \<in> fst ` set ps" by simp
    with n have "fst p \<noteq> fst (ps ! j)" by metis
    with Cons.IH [OF d j] Suc show ?thesis by simp
  qed
qed

lemma length_drop_nth: "k < length xs \<Longrightarrow> length (drop_nth k xs) = length xs - 1"
  by (simp add: drop_nth_def)

lemma nth_drop_nth:
  "k < length xs \<Longrightarrow> j < length xs - 1 \<Longrightarrow>
   drop_nth k xs ! j = (if j < k then xs ! j else xs ! Suc j)"
  by (auto simp: drop_nth_def nth_append min_def)

lemma map_drop_nth: "map f (drop_nth k xs) = drop_nth k (map f xs)"
  by (simp add: drop_nth_def take_map drop_map)

lemma distinct_drop_nth: "distinct xs \<Longrightarrow> distinct (drop_nth k xs)"
  using set_take_disj_set_drop_if_distinct [of xs k "Suc k"]
  by (simp add: drop_nth_def)

lemma nth_not_in_drop_nth:
  assumes "distinct xs" and "k < length xs"
  shows "xs ! k \<notin> set (drop_nth k xs)"
proof -
  have "xs = take k xs @ xs ! k # drop (Suc k) xs"
    using assms(2) by (rule id_take_nth_drop)
  then have "distinct (take k xs @ xs ! k # drop (Suc k) xs)"
    using assms(1) by simp
  then show ?thesis by (auto simp: drop_nth_def)
qed

lemma cell_at_drop_nth:
  "cell_at j (drop_nth k r) = (if j < k then cell_at j r else cell_at (Suc j) r)"
  by (auto simp: cell_at_def drop_nth_def nth_append min_def)

lemma cell_at_shifted:
  "j \<noteq> k \<Longrightarrow> cell_at (shifted k j) (drop_nth k r) = cell_at j r"
  by (auto simp: shifted_def cell_at_drop_nth)

lemma col_index_drop_nth:
  assumes "distinct (map fst cs)" and "k < length cs"
  shows "col_index c (drop_nth k cs) =
           (case col_index c cs of
              None \<Rightarrow> None
            | Some j \<Rightarrow> if j = k then None else Some (shifted k j))"
proof (cases "col_index c cs")
  case None
  then have "c \<notin> fst ` set cs" by (simp add: col_index_None_iff)
  moreover have "set (drop_nth k cs) \<subseteq> set cs"
    by (auto simp: drop_nth_def dest: in_set_takeD in_set_dropD)
  ultimately have "c \<notin> fst ` set (drop_nth k cs)" by auto
  then have "col_index c (drop_nth k cs) = None" by (simp add: col_index_None_iff)
  then show ?thesis using None by simp
next
  case (Some j)
  then have j: "j < length cs" and c: "fst (cs ! j) = c"
    by (simp_all add: col_index_less col_index_name)
  show ?thesis
  proof (cases "j = k")
    case True
    have "map fst cs ! k \<notin> set (drop_nth k (map fst cs))"
      by (rule nth_not_in_drop_nth) (use assms in simp_all)
    then have "c \<notin> fst ` set (drop_nth k cs)"
      using c True assms(2) by (simp add: map_drop_nth [symmetric])
    then have "col_index c (drop_nth k cs) = None" by (simp add: col_index_None_iff)
    then show ?thesis using Some True by simp
  next
    case False
    have d: "distinct (map fst (drop_nth k cs))"
      using assms(1) by (simp add: map_drop_nth distinct_drop_nth)
    have l: "shifted k j < length (drop_nth k cs)"
      using j False assms(2) by (auto simp: shifted_def length_drop_nth)
    have "drop_nth k cs ! shifted k j = cs ! j"
      using j False assms(2) by (auto simp: shifted_def nth_drop_nth)
    with col_index_distinct [OF d l] c Some False show ?thesis by simp
  qed
qed

lemma dtype_shifted:
  "k < length cs \<Longrightarrow> j < length cs \<Longrightarrow> j \<noteq> k \<Longrightarrow>
   drop_nth k cs ! shifted k j = cs ! j"
  by (auto simp: shifted_def nth_drop_nth)

lemma strip_chars_idem: "strip_chars (strip_chars s) = strip_chars s"
proof -
  define u where "u = dropWhile is_space s"
  define t where "t = rev (dropWhile is_space (rev u))"
  have t_def': "strip_chars s = t" by (simp add: strip_chars_def t_def u_def)
  have u: "u = [] \<or> \<not> is_space (hd u)"
    unfolding u_def using hd_dropWhile [of is_space s] by blast
  have t1: "dropWhile is_space t = t"
  proof (cases u)
    case Nil
    then show ?thesis by (simp add: t_def)
  next
    case (Cons x u')
    with u have nx: "\<not> is_space x" by simp
    have "dropWhile is_space (rev u' @ [x]) = dropWhile is_space (rev u') @ [x]"
      using nx by (simp add: dropWhile_append3)
    then have "t = x # rev (dropWhile is_space (rev u'))" by (simp add: t_def Cons)
    then show ?thesis using nx by simp
  qed
  have t2: "dropWhile is_space (rev t) = rev t"
    by (simp add: t_def)
  show ?thesis
    unfolding t_def' by (simp add: strip_chars_def [of t] t1 t2)
qed

lemma strip_cell_idem: "strip_cell (strip_cell v) = strip_cell v"
  by (cases v) (simp_all add: strip_cell_def strip_chars_idem)

lemma strip_cell_Null: "strip_cell v = Null \<longleftrightarrow> v = Null"
  by (cases v) (simp_all add: strip_cell_def)

lemma strip_column_alt: "strip_column k df = df \<lparr> rows := map (trim_row k) (rows df) \<rparr>"
  by (simp add: strip_column_def trim_row_def)

lemma cell_at_trim_row:
  "cell_at j (trim_row k r) = (if j = k then strip_cell (cell_at k r) else cell_at j r)"
  by (auto simp: trim_row_def cell_at_def strip_cell_def)

lemma trim_row_fixed: "strip_cell (cell_at k r) = cell_at k r \<Longrightarrow> trim_row k r = r"
  by (cases "k < length r") (simp_all add: trim_row_def cell_at_def list_update_beyond)


text \<open>What each change of the frame keeps settled.\<close>

lemma null_count_map_cong:
  "(\<And>r. r \<in> set rs \<Longrightarrow> (f r = Null) = (g r = Null)) \<Longrightarrow>
   null_count (map f rs) = null_count (map g rs)"
  by (induction rs) (auto simp: null_count_def)

lemma null_pct_strip: "column_null_pct (strip_column k df) j = column_null_pct df j"
proof -
  have "null_count (map (\<lambda>r. cell_at j (trim_row k r)) (rows df))
      = null_count (map (cell_at j) (rows df))"
    by (rule null_count_map_cong) (simp add: cell_at_trim_row strip_cell_Null)
  then show ?thesis
    by (simp add: column_null_pct_def col_values_def strip_column_alt height_def comp_def)
qed

lemma null_pct_drop:
  "j \<noteq> k \<Longrightarrow> column_null_pct (drop_column k df) (shifted k j) = column_null_pct df j"
  by (simp add: column_null_pct_def col_values_def drop_column_def height_def comp_def
        cell_at_shifted)

lemma null_pct_perm:
  assumes "mset (rows a) = mset (rows b)"
  shows "column_null_pct a j = column_null_pct b j"
proof -
  have "size (filter_mset (\<lambda>v. v = Null) (image_mset (cell_at j) (mset (rows a))))
      = size (filter_mset (\<lambda>v. v = Null) (image_mset (cell_at j) (mset (rows b))))"
    using assms by simp
  then have n: "null_count (col_values a j) = null_count (col_values b j)"
    by (simp add: null_count_def col_values_def flip: mset_map mset_filter)
  have "size (mset (rows a)) = size (mset (rows b))" using assms by simp
  then have "height a = height b" by (simp add: height_def)
  with n show ?thesis by (simp add: column_null_pct_def)
qed

lemma settled_strip:
  assumes "settled i df" and "kind_of i \<noteq> Duplicates" and "snd (columns df ! k) = Utf8"
  shows "settled i (strip_column k df)"
proof -
  have c: "columns (strip_column k df) = columns df" by (simp add: strip_column_def)
  have r: "rows (strip_column k df) = map (trim_row k) (rows df)"
    by (simp add: strip_column_alt)
  have ne: "rows (strip_column k df) \<noteq> [] \<longleftrightarrow> rows df \<noteq> []" by (simp add: r)
  show ?thesis
  proof (cases "kind_of i")
    case Whitespace
    with assms(1) show ?thesis
      by (auto simp: settled_def c r list_all_iff cell_at_trim_row strip_cell_idem
               split: option.splits)
  next
    case Negative_values
    with assms(1,3) show ?thesis
      by (auto simp: settled_def c r list_all_iff cell_at_trim_row split: option.splits)
  next
    case High_null_rate
    with assms(1) show ?thesis
      by (auto simp: settled_def c ne null_pct_strip split: option.splits)
  next
    case Duplicates
    with assms(2) show ?thesis by simp
  next
    case Other
    then show ?thesis by (simp add: settled_def)
  qed
qed

lemma settled_filter:
  assumes "settled i df" and "kind_of i \<noteq> High_null_rate"
  shows "settled i (filter_rows P df)"
  using assms
  by (cases "kind_of i")
     (auto simp: settled_def filter_rows_def list_all_iff split: option.splits)

lemma settled_uniq:
  assumes "unique_contract uniq" and "settled i df" and "kind_of i \<noteq> High_null_rate"
  shows "settled i (df \<lparr> rows := uniq (rows df) \<rparr>)"
proof -
  have "distinct (uniq (rows df))" "set (uniq (rows df)) = set (rows df)"
    using assms(1) by (simp_all add: unique_contract_def)
  with assms(2,3) show ?thesis
    by (cases "kind_of i") (auto simp: settled_def list_all_iff split: option.splits)
qed

lemma settled_perm:
  assumes "columns a = columns b" and "mset (rows a) = mset (rows b)" and "settled i a"
  shows "settled i b"
proof -
  have s: "set (rows a) = set (rows b)" using assms(2) by (rule mset_eq_setD)
  have d: "distinct (rows a) \<longleftrightarrow> distinct (rows b)"
    using assms(2) by (rule mset_eq_imp_distinct_iff)
  have e: "rows a \<noteq> [] \<longleftrightarrow> rows b \<noteq> []" using s by auto
  show ?thesis
    using assms(1,3) s d e null_pct_perm [OF assms(2)]
    by (cases "kind_of i") (auto simp: settled_def list_all_iff split: option.splits)
qed

lemma settled_drop:
  assumes "distinct (map fst (columns df))" and "k < length (columns df)"
      and "settled i df" and "kind_of i \<noteq> Duplicates"
  shows "settled i (drop_column k df)"
proof -
  have c: "columns (drop_column k df) = drop_nth k (columns df)"
    and r: "rows (drop_column k df) = map (drop_nth k) (rows df)"
    by (simp_all add: drop_column_def)
  note ci = col_index_drop_nth [OF assms(1,2), of "issue_column i"]
  show ?thesis
  proof (cases "col_index (issue_column i) (columns df)")
    case None
    with ci show ?thesis
      by (cases "kind_of i") (use assms(3,4) in \<open>auto simp: settled_def c r\<close>)
  next
    case (Some j)
    then have j: "j < length (columns df)" by (rule col_index_less)
    show ?thesis
    proof (cases "j = k")
      case True
      with ci Some show ?thesis
        by (cases "kind_of i") (use assms(3,4) in \<open>auto simp: settled_def c r\<close>)
    next
      case False
      have d: "drop_nth k (columns df) ! shifted k j = columns df ! j"
        using dtype_shifted [OF assms(2) j False] .
      from ci Some False
      have n: "col_index (issue_column i) (drop_nth k (columns df)) = Some (shifted k j)"
        by simp
      show ?thesis
        using assms(3,4) Some
        by (cases "kind_of i")
           (auto simp: settled_def c n d r list_all_iff cell_at_shifted [OF False]
                       null_pct_drop [OF False, of df, unfolded drop_column_def]
                       drop_column_def)
    qed
  qed
qed


text \<open>Deduplicating rows that are already distinct.\<close>

lemma unique_contract_fixed:
  assumes "unique_contract uniq" and "distinct rs"
  shows "mset (uniq rs) = mset rs"
proof -
  have "distinct (uniq rs)" "set (uniq rs) = set rs"
    using assms(1) by (simp_all add: unique_contract_def)
  with assms(2) show ?thesis by (simp add: set_eq_iff_mset_eq_distinct)
qed

lemma unique_contract_funpow:
  assumes "unique_contract uniq" and "distinct rs"
  shows "mset ((uniq ^^ n) rs) = mset rs \<and> distinct ((uniq ^^ n) rs)"
proof (induction n)
  case 0
  show ?case using assms(2) by simp
next
  case (Suc n)
  then have "mset (uniq ((uniq ^^ n) rs)) = mset rs"
    using unique_contract_fixed [OF assms(1), of "(uniq ^^ n) rs"] by simp
  moreover have "distinct (uniq ((uniq ^^ n) rs))"
    using assms(1) by (simp add: unique_contract_def)
  ultimately show ?case by simp
qed

lemma strip_column_fixed:
  assumes "list_all (\<lambda>r. strip_cell (cell_at k r) = cell_at k r) (rows df)"
  shows "strip_column k df = df"
proof -
  have "map (trim_row k) (rows df) = rows df"
    using assms by (intro map_idI) (simp add: list_all_iff trim_row_fixed)
  then show ?thesis by (simp add: strip_column_alt)
qed

lemma filter_rows_fixed:
  assumes "list_all P (rows df)"
  shows "filter_rows P df = df"
proof -
  have "filter P (rows df) = rows df"
    using assms by (simp add: list_all_iff)
  then show ?thesis by (simp add: filter_rows_def)
qed

lemma funpow_fixed: "f x = x \<Longrightarrow> (f ^^ n) x = x"
  by (induction n) simp_all

text \<open>A settled issue, met again: the frame stays (a deduplication may reorder it).\<close>

lemma settled_step:
  assumes "unique_contract uniq" and "settled i df"
  shows "remediate_issue uniq df i =
           Inr (if kind_of i = Duplicates then df \<lparr> rows := uniq (rows df) \<rparr> else df,
                replayed (columns df) i)"
proof (cases "kind_of i")
  case Whitespace
  with assms(2) show ?thesis
    by (auto simp: remediate_issue_by_kind settled_def replayed_def strip_column_fixed
             split: option.splits)
next
  case Duplicates
  with assms(2) have "distinct (rows df)" by (simp add: settled_def)
  then have "mset (uniq (rows df)) = mset (rows df)"
    by (rule unique_contract_fixed [OF assms(1)])
  then have "size (mset (uniq (rows df))) = size (mset (rows df))" by simp
  then have "length (uniq (rows df)) = height df" by (simp add: height_def)
  with Duplicates show ?thesis
    by (simp add: remediate_issue_by_kind replayed_def)
next
  case Negative_values
  with assms(2) show ?thesis
    by (auto simp: remediate_issue_by_kind settled_def replayed_def filter_rows_fixed
             split: option.splits)
next
  case High_null_rate
  with assms(2) show ?thesis
    by (auto simp: remediate_issue_by_kind settled_def replayed_def height_def
             split: option.splits)
next
  case Other
  then show ?thesis by (simp add: remediate_issue_by_kind replayed_def)
qed

text \<open>A step settles its own issue.\<close>

lemma step_settles:
  assumes "distinct (map fst (columns df))"
      and "unique_contract uniq"
      and "remediate_issue uniq df i = Inr (df', a)"
  shows "settled i df'"
proof (cases "kind_of i")
  case Whitespace
  show ?thesis
  proof (cases "col_index (issue_column i) (columns df)")
    case None
    with Whitespace assms(3) show ?thesis
      by (auto simp: remediate_issue_by_kind settled_def)
  next
    case (Some k)
    show ?thesis
    proof (cases "snd (columns df ! k) = Utf8")
      case True
      with Whitespace Some assms(3) have "df' = strip_column k df"
        by (auto simp: remediate_issue_by_kind)
      with Whitespace Some show ?thesis
        by (simp add: settled_def strip_column_alt list_all_iff cell_at_trim_row
              strip_cell_idem)
    next
      case False
      with Whitespace Some assms(3) show ?thesis
        by (auto simp: remediate_issue_by_kind settled_def)
    qed
  qed
next
  case Duplicates
  with assms(2,3) show ?thesis
    by (auto simp: remediate_issue_by_kind settled_def unique_contract_def)
next
  case Negative_values
  with assms(3) show ?thesis
    by (auto simp: remediate_issue_by_kind settled_def filter_rows_def list_all_iff
             split: option.splits if_splits)
next
  case High_null_rate
  show ?thesis
  proof (cases "col_index (issue_column i) (columns df)")
    case None
    with High_null_rate assms(3) show ?thesis
      by (auto simp: remediate_issue_by_kind settled_def)
  next
    case (Some k)
    then have k: "k < length (columns df)" by (rule col_index_less)
    have n: "col_index (issue_column i) (drop_nth k (columns df)) = None"
      using col_index_drop_nth [OF assms(1) k, of "issue_column i"] Some by simp
    from High_null_rate Some assms(3) show ?thesis
      by (auto simp: remediate_issue_by_kind settled_def drop_column_def n height_def
               split: if_splits)
  qed
next
  case Other
  then show ?thesis by (simp add: settled_def)
qed

text \<open>What a step may do to the frame.\<close>

lemma step_shape:
  assumes "remediate_issue uniq df j = Inr (df', a)"
  shows "(case kind_of j of
            Whitespace \<Rightarrow>
              df' = df \<or> (\<exists>k. snd (columns df ! k) = Utf8 \<and> df' = strip_column k df)
          | Duplicates \<Rightarrow> df' = df \<lparr> rows := uniq (rows df) \<rparr>
          | Negative_values \<Rightarrow> df' = df \<or> (\<exists>P. df' = filter_rows P df)
          | High_null_rate \<Rightarrow>
              df' = df \<or> (\<exists>k < length (columns df). df' = drop_column k df)
          | Other \<Rightarrow> df' = df)"
proof (cases "col_index (issue_column j) (columns df)")
  case None
  with assms show ?thesis
    by (cases "kind_of j") (auto simp: remediate_issue_by_kind)
next
  case (Some k)
  then have k: "k < length (columns df)" by (rule col_index_less)
  show ?thesis
  proof (cases "kind_of j")
    case Whitespace
    with assms Some show ?thesis
      by (cases "snd (columns df ! k) = Utf8") (auto simp: remediate_issue_by_kind)
  next
    case Duplicates
    with assms show ?thesis by (auto simp: remediate_issue_by_kind)
  next
    case Negative_values
    with assms Some show ?thesis
      by (cases "snd (columns df ! k) = Utf8") (auto simp: remediate_issue_by_kind)
  next
    case High_null_rate
    with assms Some k show ?thesis
      by (cases "height df = 0"; cases "column_null_pct df k > 80")
         (auto simp: remediate_issue_by_kind)
  next
    case Other
    with assms show ?thesis by (auto simp: remediate_issue_by_kind)
  qed
qed

text \<open>A step keeps what an earlier issue settled, when it may follow that issue.\<close>

lemma step_keeps_settled:
  assumes "distinct (map fst (columns df))"
      and "unique_contract uniq"
      and "remediate_issue uniq df j = Inr (df', a)"
      and "settled i df" and "may_follow i j"
  shows "settled i df'"
proof (cases "kind_of j")
  case Whitespace
  with assms(5) have n: "kind_of i \<noteq> Duplicates"
    by (cases "kind_of i") (simp_all add: may_follow_def)
  from step_shape [OF assms(3)] Whitespace
  have "df' = df \<or> (\<exists>k. snd (columns df ! k) = Utf8 \<and> df' = strip_column k df)"
    by simp
  then show ?thesis
    using assms(4) settled_strip [OF assms(4) n] by blast
next
  case Duplicates
  with assms(5) have n: "kind_of i \<noteq> High_null_rate"
    by (cases "kind_of i") (simp_all add: may_follow_def)
  from step_shape [OF assms(3)] Duplicates
  have "df' = df \<lparr> rows := uniq (rows df) \<rparr>" by simp
  with settled_uniq [OF assms(2,4) n] show ?thesis by simp
next
  case Negative_values
  with assms(5) have n: "kind_of i \<noteq> High_null_rate"
    by (cases "kind_of i") (simp_all add: may_follow_def)
  from step_shape [OF assms(3)] Negative_values
  have "df' = df \<or> (\<exists>P. df' = filter_rows P df)" by simp
  then show ?thesis
    using assms(4) settled_filter [OF assms(4) n] by blast
next
  case High_null_rate
  with assms(5) have n: "kind_of i \<noteq> Duplicates"
    by (cases "kind_of i") (simp_all add: may_follow_def)
  from step_shape [OF assms(3)] High_null_rate
  have "df' = df \<or> (\<exists>k < length (columns df). df' = drop_column k df)" by simp
  then show ?thesis
    using assms(4) settled_drop [OF assms(1) _ assms(4) n] by blast
next
  case Other
  with step_shape [OF assms(3)] have "df' = df" by simp
  with assms(4) show ?thesis by simp
qed

lemma step_keeps_names:
  assumes "distinct (map fst (columns df))"
      and "remediate_issue uniq df j = Inr (df', a)"
  shows "distinct (map fst (columns df'))"
proof -
  have "columns df' = columns df \<or> (\<exists>k. columns df' = drop_nth k (columns df))"
    using step_shape [OF assms(2)]
    by (cases "kind_of j")
       (auto simp: strip_column_def filter_rows_def drop_column_def)
  then show ?thesis
    using assms(1) by (auto simp: map_drop_nth distinct_drop_nth)
qed


text \<open>The first run: when it returns, every issue of the list is settled.\<close>

lemma first_run_settles:
  assumes "unique_contract uniq"
      and "distinct (map fst (columns df))"
      and "order_safe issues"
      and "remediate_loop uniq df acts issues = Inr (df1, acts1)"
      and "\<forall>s \<in> S. settled s df \<and> list_all (may_follow s) issues"
  shows "\<forall>i \<in> S \<union> set issues. settled i df1"
  using assms(2-)
proof (induction issues arbitrary: df acts S)
  case Nil
  then show ?case by simp
next
  case (Cons j issues)
  from Cons.prems(3) obtain df' a where
    step: "remediate_issue uniq df j = Inr (df', a)"
    and rest: "remediate_loop uniq df'
                 (case a of None \<Rightarrow> acts | Some b \<Rightarrow> acts @ [b]) issues = Inr (df1, acts1)"
    by (auto split: sum.splits)
  have names: "distinct (map fst (columns df'))"
    using step_keeps_names [OF Cons.prems(1) step] .
  have safe: "order_safe issues" and later: "list_all (may_follow j) issues"
    using Cons.prems(2) by simp_all
  have "settled s df' \<and> list_all (may_follow s) issues" if "s \<in> insert j S" for s
  proof (cases "s \<in> S")
    case True
    with Cons.prems(4) have "settled s df" "may_follow s j"
      "list_all (may_follow s) issues" by simp_all
    with step_keeps_settled [OF Cons.prems(1) assms(1) step] show ?thesis by simp
  next
    case False
    with that have "s = j" by simp
    with step_settles [OF Cons.prems(1) assms(1) step] later show ?thesis by simp
  qed
  then have inv: "\<forall>s \<in> insert j S. settled s df' \<and> list_all (may_follow s) issues"
    by blast
  have "\<forall>i \<in> insert j S \<union> set issues. settled i df1"
    using names safe rest inv by (rule Cons.IH)
  then show ?case by simp
qed

text \<open>A run on a frame where every issue of the list is settled.\<close>

lemma settled_run:
  assumes "unique_contract uniq"
      and "\<forall>i \<in> set issues. settled i df"
  shows "remediate_loop uniq df acts issues =
           Inr (df \<lparr> rows := (uniq ^^ count_duplicates issues) (rows df) \<rparr>,
                acts @ List.map_filter (replayed (columns df)) issues)"
  using assms(2)
proof (induction issues arbitrary: df acts)
  case Nil
  then show ?case by (simp add: count_duplicates_def List.map_filter_simps)
next
  case (Cons j issues)
  define df' where "df' = (if kind_of j = Duplicates then df \<lparr> rows := uniq (rows df) \<rparr> else df)"
  have sj: "settled j df" using Cons.prems by simp
  have step: "remediate_issue uniq df j = Inr (df', replayed (columns df) j)"
    using settled_step [OF assms(1) sj] by (simp add: df'_def)
  have c: "columns df' = columns df" by (simp add: df'_def)
  have m: "mset (rows df) = mset (rows df')"
  proof (cases "kind_of j = Duplicates")
    case True
    with sj have "distinct (rows df)" by (simp add: settled_def)
    from unique_contract_fixed [OF assms(1) this] True show ?thesis
      by (simp add: df'_def)
  next
    case False
    then show ?thesis by (simp add: df'_def)
  qed
  have "\<forall>i \<in> set issues. settled i df'"
    using Cons.prems settled_perm [OF c [symmetric] m] by simp
  note ih = Cons.IH [OF this]
  have r: "(uniq ^^ count_duplicates issues) (rows df')
         = (uniq ^^ count_duplicates (j # issues)) (rows df)"
    by (simp add: df'_def count_duplicates_def funpow_swap1)
  have e: "df' \<lparr> rows := X \<rparr> = df \<lparr> rows := X \<rparr>" for X
    by (simp add: df'_def)
  show ?case
    by (cases "replayed (columns df) j")
       (simp_all add: step ih c r e List.map_filter_simps)
qed


text \<open>
  C1. A second run of \<open>auto_remediate\<close> on the output of the first, with the same
  issues. Each run may deduplicate with its own function, within what polars promises
  of \<open>unique\<close>; the frame has the distinct column names polars insists on; the issue
  list is \<open>order_safe\<close>: no NEGATIVE\_VALUES or DUPLICATES issue comes after a
  HIGH\_NULL\_RATE issue, and no WHITESPACE or HIGH\_NULL\_RATE issue after a DUPLICATES
  issue. When the first run returns, the second run returns too. Its frame has the
  columns of its input and the same rows, each as often: it is its input when the list
  has no DUPLICATES issue, and its input deduplicated once more per DUPLICATES issue
  otherwise, which can only change the order of the rows, and changes nothing when
  the second function returns distinct rows as they are. Its log holds one SUCCESS
  action for every WHITESPACE issue on a string column of the frame, for every
  DUPLICATES issue and for every NEGATIVE\_VALUES issue on a column of the frame, and
  those that count rows count 0: it is empty only for a list without such an issue.
\<close>

theorem second_remediation_keeps_rows:
  assumes "unique_contract uniq1" and "unique_contract uniq2"
      and "distinct (map fst (columns df))"
      and "order_safe issues"
      and "auto_remediate uniq1 df issues = Inr (df1, acts1)"
  shows "auto_remediate uniq2 df1 issues =
           Inr (df1 \<lparr> rows := (uniq2 ^^ count_duplicates issues) (rows df1) \<rparr>,
                List.map_filter (replayed (columns df1)) issues)
       \<and> mset ((uniq2 ^^ count_duplicates issues) (rows df1)) = mset (rows df1)
       \<and> ((\<forall>rs. distinct rs \<longrightarrow> uniq2 rs = rs) \<longrightarrow>
            (uniq2 ^^ count_duplicates issues) (rows df1) = rows df1)"
proof -
  have s: "\<forall>i \<in> set issues. settled i df1"
    using first_run_settles [OF assms(1,3,4), of "[]" df1 acts1 "{}"] assms(5)
    by (simp add: auto_remediate_def)
  have d: "count_duplicates issues = 0 \<or> distinct (rows df1)"
  proof (cases "count_duplicates issues = 0")
    case True
    then show ?thesis by simp
  next
    case False
    then have "filter (\<lambda>i. kind_of i = Duplicates) issues \<noteq> []"
      by (simp add: count_duplicates_def)
    then obtain i where "i \<in> set issues" "kind_of i = Duplicates"
      by (auto simp: filter_empty_conv)
    with s show ?thesis by (auto simp: settled_def)
  qed
  have m: "mset ((uniq2 ^^ count_duplicates issues) (rows df1)) = mset (rows df1)"
    using d unique_contract_funpow [OF assms(2), of "rows df1"] by auto
  have f: "(uniq2 ^^ count_duplicates issues) (rows df1) = rows df1"
    if "\<forall>rs. distinct rs \<longrightarrow> uniq2 rs = rs"
    using d that by (auto simp: funpow_fixed)
  from settled_run [OF assms(2) s, of "[]"] m f show ?thesis
    by (simp add: auto_remediate_def)
qed

text \<open>
  The two examples of the specification: six rows with one negative age and one
  duplicate row, under the issues the profiler reports for them, and a column null in
  5 rows of 6 under its HIGH\_NULL\_RATE issue. The second run returns the four rows,
  and the frame without the column, that the first run has left.
\<close>

lemma first_run_ages:
  "auto_remediate remdups
     \<lparr> columns = [(''id'', Int64), (''age'', Int64)],
       rows = [[IntV 1, IntV 25], [IntV 2, IntV 30], [IntV 2, IntV 30],
               [IntV 3, IntV (-5)], [IntV 4, IntV 40], [IntV 5, IntV 200]] \<rparr>
     [mk_issue ''HIGH'' ''NEGATIVE_VALUES'' ''age'', mk_issue ''MEDIUM'' ''DUPLICATES'' ''ALL'']
   = Inr (\<lparr> columns = [(''id'', Int64), (''age'', Int64)],
            rows = [[IntV 1, IntV 25], [IntV 2, IntV 30], [IntV 4, IntV 40],
                    [IntV 5, IntV 200]] \<rparr>,
          [\<lparr> action_issue = mk_issue ''HIGH'' ''NEGATIVE_VALUES'' ''age'',
              action_name = ''FILTERED_NEGATIVE_VALUES'', action_column = Some ''age'',
              rows_removed = Some 1, reason_null_pct = None, status = ''SUCCESS'' \<rparr>,
           \<lparr> action_issue = mk_issue ''MEDIUM'' ''DUPLICATES'' ''ALL'',
              action_name = ''REMOVED_DUPLICATES'', action_column = None,
              rows_removed = Some 1, reason_null_pct = None, status = ''SUCCESS'' \<rparr>])"
  by code_simp

lemma first_run_coupon:
  "auto_remediate remdups
     \<lparr> columns = [(''id'', Int64), (''coupon'', Utf8)],
       rows = [[IntV 1, Null], [IntV 2, Null], [IntV 3, StrV ''X1''],
               [IntV 4, Null], [IntV 5, Null], [IntV 6, Null]] \<rparr>
     [mk_issue ''HIGH'' ''HIGH_NULL_RATE'' ''coupon'']
   = Inr (\<lparr> columns = [(''id'', Int64)],
            rows = [[IntV 1], [IntV 2], [IntV 3], [IntV 4], [IntV 5], [IntV 6]] \<rparr>,
          [\<lparr> action_issue = mk_issue ''HIGH'' ''HIGH_NULL_RATE'' ''coupon'',
              action_name = ''DROPPED_COLUMN'', action_column = Some ''coupon'',
              rows_removed = None, reason_null_pct = Some (250 / 3),
              status = ''SUCCESS'' \<rparr>])"
  by code_simp

lemma replay_ages:
  "(\<lparr> columns = [(''id'', Int64), (''age'', Int64)],
      rows = [[IntV 1, IntV 25], [IntV 2, IntV 30], [IntV 4, IntV 40],
              [IntV 5, IntV 200]] \<rparr>
    \<lparr> rows := (remdups ^^ count_duplicates
        [mk_issue ''HIGH'' ''NEGATIVE_VALUES'' ''age'',
         mk_issue ''MEDIUM'' ''DUPLICATES'' ''ALL''])
        [[IntV 1, IntV 25], [IntV 2, IntV 30], [IntV 4, IntV 40], [IntV 5, IntV 200]] \<rparr>,
    List.map_filter (replayed [(''id'', Int64), (''age'', Int64)])
      [mk_issue ''HIGH'' ''NEGATIVE_VALUES'' ''age'', mk_issue ''MEDIUM'' ''DUPLICATES'' ''ALL''])
   = (\<lparr> columns = [(''id'', Int64), (''age'', Int64)],
        rows = [[IntV 1, IntV 25], [IntV 2, IntV 30], [IntV 4, IntV 40],
                [IntV 5, IntV 200]] \<rparr>,
      [\<lparr> action_issue = mk_issue ''HIGH'' ''NEGATIVE_VALUES'' ''age'',
          action_name = ''FILTERED_NEGATIVE_VALUES'', action_column = Some ''age'',
          rows_removed = Some 0, reason_null_pct = None, status = ''SUCCESS'' \<rparr>,
       \<lparr> action_issue = mk_issue ''MEDIUM'' ''DUPLICATES'' ''ALL'',
          action_name = ''REMOVED_DUPLICATES'', action_column = None,
          rows_removed = Some 0, reason_null_pct = None, status = ''SUCCESS'' \<rparr>])"
  by code_simp

lemma replay_coupon:
  "(\<lparr> columns = [(''id'', Int64)],
      rows = [[IntV 1], [IntV 2], [IntV 3], [IntV 4], [IntV 5], [IntV 6]] \<rparr>
    \<lparr> rows := (remdups ^^ count_duplicates [mk_issue ''HIGH'' ''HIGH_NULL_RATE'' ''coupon''])
        [[IntV 1], [IntV 2], [IntV 3], [IntV 4], [IntV 5], [IntV 6]] \<rparr>,
    List.map_filter (replayed [(''id'', Int64)])
      [mk_issue ''HIGH'' ''HIGH_NULL_RATE'' ''coupon''])
   = (\<lparr> columns = [(''id'', Int64)],
        rows = [[IntV 1], [IntV 2], [IntV 3], [IntV 4], [IntV 5], [IntV 6]] \<rparr>, [])"
  by code_simp

theorem second_remediation_keeps_rows_witness:
  "auto_remediate remdups
     \<lparr> columns = [(''id'', Int64), (''age'', Int64)],
       rows = [[IntV 1, IntV 25], [IntV 2, IntV 30], [IntV 4, IntV 40],
               [IntV 5, IntV 200]] \<rparr>
     [mk_issue ''HIGH'' ''NEGATIVE_VALUES'' ''age'', mk_issue ''MEDIUM'' ''DUPLICATES'' ''ALL'']
   = Inr (\<lparr> columns = [(''id'', Int64), (''age'', Int64)],
            rows = [[IntV 1, IntV 25], [IntV 2, IntV 30], [IntV 4, IntV 40],
                    [IntV 5, IntV 200]] \<rparr>,
          [\<lparr> action_issue = mk_issue ''HIGH'' ''NEGATIVE_VALUES'' ''age'',
              action_name = ''FILTERED_NEGATIVE_VALUES'', action_column = Some ''age'',
              rows_removed = Some 0, reason_null_pct = None, status = ''SUCCESS'' \<rparr>,
           \<lparr> action_issue = mk_issue ''MEDIUM'' ''DUPLICATES'' ''ALL'',
              action_name = ''REMOVED_DUPLICATES'', action_column = None,
              rows_removed = Some 0, reason_null_pct = None, status = ''SUCCESS'' \<rparr>])
 \<and> auto_remediate remdups
     \<lparr> columns = [(''id'', Int64)],
       rows = [[IntV 1], [IntV 2], [IntV 3], [IntV 4], [IntV 5], [IntV 6]] \<rparr>
     [mk_issue ''HIGH'' ''HIGH_NULL_RATE'' ''coupon'']
   = Inr (\<lparr> columns = [(''id'', Int64)],
            rows = [[IntV 1], [IntV 2], [IntV 3], [IntV 4], [IntV 5], [IntV 6]] \<rparr>, [])"
proof -
  have u: "unique_contract remdups" by (simp add: unique_contract_def)
  have safe_ages: "order_safe
     [mk_issue ''HIGH'' ''NEGATIVE_VALUES'' ''age'', mk_issue ''MEDIUM'' ''DUPLICATES'' ''ALL'']"
    by (simp add: may_follow_def kind_of_def mk_issue_def)
  have safe_coupon: "order_safe [mk_issue ''HIGH'' ''HIGH_NULL_RATE'' ''coupon'']"
    by simp
  have names_ages: "distinct (map fst (columns
     \<lparr> columns = [(''id'', Int64), (''age'', Int64)],
       rows = [[IntV 1, IntV 25], [IntV 2, IntV 30], [IntV 2, IntV 30],
               [IntV 3, IntV (-5)], [IntV 4, IntV 40], [IntV 5, IntV 200]] \<rparr>))"
    by simp
  have names_coupon: "distinct (map fst (columns
     \<lparr> columns = [(''id'', Int64), (''coupon'', Utf8)],
       rows = [[IntV 1, Null], [IntV 2, Null], [IntV 3, StrV ''X1''],
               [IntV 4, Null], [IntV 5, Null], [IntV 6, Null]] \<rparr>))"
    by simp
  from second_remediation_keeps_rows [OF u u names_ages safe_ages first_run_ages]
  have a: "auto_remediate remdups
     \<lparr> columns = [(''id'', Int64), (''age'', Int64)],
       rows = [[IntV 1, IntV 25], [IntV 2, IntV 30], [IntV 4, IntV 40],
               [IntV 5, IntV 200]] \<rparr>
     [mk_issue ''HIGH'' ''NEGATIVE_VALUES'' ''age'', mk_issue ''MEDIUM'' ''DUPLICATES'' ''ALL'']
     = Inr (\<lparr> columns = [(''id'', Int64), (''age'', Int64)],
      rows = [[IntV 1, IntV 25], [IntV 2, IntV 30], [IntV 4, IntV 40],
              [IntV 5, IntV 200]] \<rparr>
    \<lparr> rows := (remdups ^^ count_duplicates
        [mk_issue ''HIGH'' ''NEGATIVE_VALUES'' ''age'',
         mk_issue ''MEDIUM'' ''DUPLICATES'' ''ALL''])
        [[IntV 1, IntV 25], [IntV 2, IntV 30], [IntV 4, IntV 40], [IntV 5, IntV 200]] \<rparr>,
    List.map_filter (replayed [(''id'', Int64), (''age'', Int64)])
      [mk_issue ''HIGH'' ''NEGATIVE_VALUES'' ''age'', mk_issue ''MEDIUM'' ''DUPLICATES'' ''ALL''])"
    by simp
  from second_remediation_keeps_rows [OF u u names_coupon safe_coupon first_run_coupon]
  have b: "auto_remediate remdups
     \<lparr> columns = [(''id'', Int64)],
       rows = [[IntV 1], [IntV 2], [IntV 3], [IntV 4], [IntV 5], [IntV 6]] \<rparr>
     [mk_issue ''HIGH'' ''HIGH_NULL_RATE'' ''coupon'']
     = Inr (\<lparr> columns = [(''id'', Int64)],
      rows = [[IntV 1], [IntV 2], [IntV 3], [IntV 4], [IntV 5], [IntV 6]] \<rparr>
    \<lparr> rows := (remdups ^^ count_duplicates [mk_issue ''HIGH'' ''HIGH_NULL_RATE'' ''coupon''])
        [[IntV 1], [IntV 2], [IntV 3], [IntV 4], [IntV 5], [IntV 6]] \<rparr>,
    List.map_filter (replayed [(''id'', Int64)])
      [mk_issue ''HIGH'' ''HIGH_NULL_RATE'' ''coupon''])"
    by simp
  show ?thesis
    unfolding a b replay_ages replay_coupon by simp
qed


text \<open>
  The property as the specification words it fails, and each order that
  \<open>order_safe\<close> rules out is one that breaks it. All five pairs of runs below
  deduplicate with \<open>remdups\<close>, the last second run apart.
  (1) The profiler's own issues for a frame whose coupon column is null in 3 rows of
  4: the first run keeps the column (75 percent) and removes the row with the negative
  age, the second run finds the column all null and drops it.
  (2) The profiler's own issues for a frame whose coupon column is null in 5 rows of
  8, the other 3 rows equal: the first run keeps the column (62.5 percent) and removes
  two duplicates, the second run finds the column null in 5 rows of 6 and drops it.
  (3) DUPLICATES before WHITESPACE: trimming makes two rows equal after the first run
  has deduplicated, and the second run removes one.
  (4) DUPLICATES before HIGH\_NULL\_RATE: dropping the column makes two rows equal after
  the first run has deduplicated, and the second run removes one.
  (5) A lone DUPLICATES issue, the second run deduplicating with another function that
  polars' promise allows: the rows come back in another order.
  Every second run logs SUCCESS actions.
\<close>

theorem second_remediation_counterexample:
  "((case profile_dataset (\<lambda>vs. True) (\<lambda>vs. True)
           \<lparr> columns = [(''coupon'', Utf8), (''age'', Int64)],
             rows = [[Null, IntV 30], [Null, IntV 41], [Null, IntV 52],
                     [StrV ''X1'', IntV (-5)]] \<rparr> ''orders''
    of Inl e \<Rightarrow> None | Inr p \<Rightarrow> issues_detected p)
   = Some [mk_issue ''HIGH'' ''HIGH_NULL_RATE'' ''coupon'',
           mk_issue ''HIGH'' ''NEGATIVE_VALUES'' ''age'']
 \<and> auto_remediate remdups
       \<lparr> columns = [(''coupon'', Utf8), (''age'', Int64)],
         rows = [[Null, IntV 30], [Null, IntV 41], [Null, IntV 52],
                 [StrV ''X1'', IntV (-5)]] \<rparr>
       [mk_issue ''HIGH'' ''HIGH_NULL_RATE'' ''coupon'',
        mk_issue ''HIGH'' ''NEGATIVE_VALUES'' ''age'']
   = Inr (\<lparr> columns = [(''coupon'', Utf8), (''age'', Int64)],
            rows = [[Null, IntV 30], [Null, IntV 41], [Null, IntV 52]] \<rparr>,
          [\<lparr> action_issue = mk_issue ''HIGH'' ''NEGATIVE_VALUES'' ''age'',
              action_name = ''FILTERED_NEGATIVE_VALUES'', action_column = Some ''age'',
              rows_removed = Some 1, reason_null_pct = None, status = ''SUCCESS'' \<rparr>])
 \<and> auto_remediate remdups
       \<lparr> columns = [(''coupon'', Utf8), (''age'', Int64)],
         rows = [[Null, IntV 30], [Null, IntV 41], [Null, IntV 52]] \<rparr>
       [mk_issue ''HIGH'' ''HIGH_NULL_RATE'' ''coupon'',
        mk_issue ''HIGH'' ''NEGATIVE_VALUES'' ''age'']
   = Inr (\<lparr> columns = [(''age'', Int64)],
            rows = [[IntV 30], [IntV 41], [IntV 52]] \<rparr>,
          [\<lparr> action_issue = mk_issue ''HIGH'' ''HIGH_NULL_RATE'' ''coupon'',
              action_name = ''DROPPED_COLUMN'', action_column = Some ''coupon'',
              rows_removed = None, reason_null_pct = Some 100, status = ''SUCCESS'' \<rparr>,
           \<lparr> action_issue = mk_issue ''HIGH'' ''NEGATIVE_VALUES'' ''age'',
              action_name = ''FILTERED_NEGATIVE_VALUES'', action_column = Some ''age'',
              rows_removed = Some 0, reason_null_pct = None, status = ''SUCCESS'' \<rparr>])
 \<and> (case profile_dataset (\<lambda>vs. True) (\<lambda>vs. True)
           \<lparr> columns = [(''coupon'', Utf8), (''id'', Int64)],
             rows = [[Null, IntV 1], [Null, IntV 2], [Null, IntV 3], [Null, IntV 4],
                     [Null, IntV 5], [StrV ''X1'', IntV 6], [StrV ''X1'', IntV 6],
                     [StrV ''X1'', IntV 6]] \<rparr> ''orders''
    of Inl e \<Rightarrow> None | Inr p \<Rightarrow> issues_detected p)
   = Some [mk_issue ''HIGH'' ''HIGH_NULL_RATE'' ''coupon'',
           mk_issue ''MEDIUM'' ''DUPLICATES'' ''ALL'']
 \<and> auto_remediate remdups
       \<lparr> columns = [(''coupon'', Utf8), (''id'', Int64)],
         rows = [[Null, IntV 1], [Null, IntV 2], [Null, IntV 3], [Null, IntV 4],
                 [Null, IntV 5], [StrV ''X1'', IntV 6], [StrV ''X1'', IntV 6],
                 [StrV ''X1'', IntV 6]] \<rparr>
       [mk_issue ''HIGH'' ''HIGH_NULL_RATE'' ''coupon'',
        mk_issue ''MEDIUM'' ''DUPLICATES'' ''ALL'']
   = Inr (\<lparr> columns = [(''coupon'', Utf8), (''id'', Int64)],
            rows = [[Null, IntV 1], [Null, IntV 2], [Null, IntV 3], [Null, IntV 4],
                    [Null, IntV 5], [StrV ''X1'', IntV 6]] \<rparr>,
          [\<lparr> action_issue = mk_issue ''MEDIUM'' ''DUPLICATES'' ''ALL'',
              action_name = ''REMOVED_DUPLICATES'', action_column = None,
              rows_removed = Some 2, reason_null_pct = None, status = ''SUCCESS'' \<rparr>])
 \<and> auto_remediate remdups
       \<lparr> columns = [(''coupon'', Utf8), (''id'', Int64)],
         rows = [[Null, IntV 1], [Null, IntV 2], [Null, IntV 3], [Null, IntV 4],
                 [Null, IntV 5], [StrV ''X1'', IntV 6]] \<rparr>
       [mk_issue ''HIGH'' ''HIGH_NULL_RATE'' ''coupon'',
        mk_issue ''MEDIUM'' ''DUPLICATES'' ''ALL'']
   = Inr (\<lparr> columns = [(''id'', Int64)],
            rows = [[IntV 1], [IntV 2], [IntV 3], [IntV 4], [IntV 5], [IntV 6]] \<rparr>,
          [\<lparr> action_issue = mk_issue ''HIGH'' ''HIGH_NULL_RATE'' ''coupon'',
              action_name = ''DROPPED_COLUMN'', action_column = Some ''coupon'',
              rows_removed = None, reason_null_pct = Some (250 / 3),
              status = ''SUCCESS'' \<rparr>,
           \<lparr> action_issue = mk_issue ''MEDIUM'' ''DUPLICATES'' ''ALL'',
              action_name = ''REMOVED_DUPLICATES'', action_column = None,
              rows_removed = Some 0, reason_null_pct = None, status = ''SUCCESS'' \<rparr>])
 \<and> auto_remediate remdups
       \<lparr> columns = [(''name'', Utf8)], rows = [[StrV ''Bob ''], [StrV ''Bob'']] \<rparr>
       [mk_issue ''MEDIUM'' ''DUPLICATES'' ''ALL'', mk_issue ''LOW'' ''WHITESPACE'' ''name'']
   = Inr (\<lparr> columns = [(''name'', Utf8)], rows = [[StrV ''Bob''], [StrV ''Bob'']] \<rparr>,
          [\<lparr> action_issue = mk_issue ''MEDIUM'' ''DUPLICATES'' ''ALL'',
              action_name = ''REMOVED_DUPLICATES'', action_column = None,
              rows_removed = Some 0, reason_null_pct = None, status = ''SUCCESS'' \<rparr>,
           \<lparr> action_issue = mk_issue ''LOW'' ''WHITESPACE'' ''name'',
              action_name = ''TRIMMED_WHITESPACE'', action_column = Some ''name'',
              rows_removed = None, reason_null_pct = None, status = ''SUCCESS'' \<rparr>])
 \<and> auto_remediate remdups
       \<lparr> columns = [(''name'', Utf8)], rows = [[StrV ''Bob''], [StrV ''Bob'']] \<rparr>
       [mk_issue ''MEDIUM'' ''DUPLICATES'' ''ALL'', mk_issue ''LOW'' ''WHITESPACE'' ''name'']
   = Inr (\<lparr> columns = [(''name'', Utf8)], rows = [[StrV ''Bob'']] \<rparr>,
          [\<lparr> action_issue = mk_issue ''MEDIUM'' ''DUPLICATES'' ''ALL'',
              action_name = ''REMOVED_DUPLICATES'', action_column = None,
              rows_removed = Some 1, reason_null_pct = None, status = ''SUCCESS'' \<rparr>,
           \<lparr> action_issue = mk_issue ''LOW'' ''WHITESPACE'' ''name'',
              action_name = ''TRIMMED_WHITESPACE'', action_column = Some ''name'',
              rows_removed = None, reason_null_pct = None, status = ''SUCCESS'' \<rparr>])
 \<and> auto_remediate remdups
       \<lparr> columns = [(''coupon'', Utf8), (''id'', Int64)],
         rows = [[StrV ''X1'', IntV 1], [Null, IntV 1], [Null, IntV 2], [Null, IntV 3],
                 [Null, IntV 4], [Null, IntV 5]] \<rparr>
       [mk_issue ''MEDIUM'' ''DUPLICATES'' ''ALL'',
        mk_issue ''HIGH'' ''HIGH_NULL_RATE'' ''coupon'']
   = Inr (\<lparr> columns = [(''id'', Int64)],
            rows = [[IntV 1], [IntV 1], [IntV 2], [IntV 3], [IntV 4], [IntV 5]] \<rparr>,
          [\<lparr> action_issue = mk_issue ''MEDIUM'' ''DUPLICATES'' ''ALL'',
              action_name = ''REMOVED_DUPLICATES'', action_column = None,
              rows_removed = Some 0, reason_null_pct = None, status = ''SUCCESS'' \<rparr>,
           \<lparr> action_issue = mk_issue ''HIGH'' ''HIGH_NULL_RATE'' ''coupon'',
              action_name = ''DROPPED_COLUMN'', action_column = Some ''coupon'',
              rows_removed = None, reason_null_pct = Some (250 / 3),
              status = ''SUCCESS'' \<rparr>])
 \<and> auto_remediate remdups
       \<lparr> columns = [(''id'', Int64)],
         rows = [[IntV 1], [IntV 1], [IntV 2], [IntV 3], [IntV 4], [IntV 5]] \<rparr>
       [mk_issue ''MEDIUM'' ''DUPLICATES'' ''ALL'',
        mk_issue ''HIGH'' ''HIGH_NULL_RATE'' ''coupon'']
   = Inr (\<lparr> columns = [(''id'', Int64)],
            rows = [[IntV 1], [IntV 2], [IntV 3], [IntV 4], [IntV 5]] \<rparr>,
          [\<lparr> action_issue = mk_issue ''MEDIUM'' ''DUPLICATES'' ''ALL'',
              action_name = ''REMOVED_DUPLICATES'', action_column = None,
              rows_removed = Some 1, reason_null_pct = None, status = ''SUCCESS'' \<rparr>])
 \<and> auto_remediate remdups
       \<lparr> columns = [(''id'', Int64)], rows = [[IntV 1], [IntV 2], [IntV 2]] \<rparr>
       [mk_issue ''MEDIUM'' ''DUPLICATES'' ''ALL'']
   = Inr (\<lparr> columns = [(''id'', Int64)], rows = [[IntV 1], [IntV 2]] \<rparr>,
          [\<lparr> action_issue = mk_issue ''MEDIUM'' ''DUPLICATES'' ''ALL'',
              action_name = ''REMOVED_DUPLICATES'', action_column = None,
              rows_removed = Some 1, reason_null_pct = None, status = ''SUCCESS'' \<rparr>])
 \<and> auto_remediate (\<lambda>rs. rev (remdups rs))
       \<lparr> columns = [(''id'', Int64)], rows = [[IntV 1], [IntV 2]] \<rparr>
       [mk_issue ''MEDIUM'' ''DUPLICATES'' ''ALL'']
   = Inr (\<lparr> columns = [(''id'', Int64)], rows = [[IntV 2], [IntV 1]] \<rparr>,
          [\<lparr> action_issue = mk_issue ''MEDIUM'' ''DUPLICATES'' ''ALL'',
              action_name = ''REMOVED_DUPLICATES'', action_column = None,
              rows_removed = Some 0, reason_null_pct = None, status = ''SUCCESS'' \<rparr>]))
 \<and> unique_contract (\<lambda>rs. rev (remdups rs))"
proof (rule conjI)
  show "unique_contract (\<lambda>rs. rev (remdups rs))"
    by (simp add: unique_contract_def)
qed code_simp

section \<open>Properties of the layer store\<close>

subsection \<open>Replaying the promotion\<close>

lemma unique_contract_remdups: "unique_contract remdups"
  by (simp add: unique_contract_def)

lemma unique_contract_rev_remdups: "unique_contract (\<lambda>rs. rev (remdups rs))"
  by (simp add: unique_contract_def)

lemma unique_same_rows:
  assumes "unique_contract uniq1" and "unique_contract uniq2"
  shows "same_rows (df \<lparr> rows := uniq1 (rows df) \<rparr>) (df \<lparr> rows := uniq2 (rows df) \<rparr>)"
proof -
  have "distinct (uniq1 (rows df))" "distinct (uniq2 (rows df))"
       "set (uniq1 (rows df)) = set (uniq2 (rows df))"
    using assms by (simp_all add: unique_contract_def)
  then have "mset (uniq1 (rows df)) = mset (uniq2 (rows df))"
    by (simp add: set_eq_iff_mset_eq_distinct)
  then show ?thesis by (simp add: same_rows_def)
qed

lemma strip_column_same:
  "same_rows a b \<Longrightarrow> same_rows (strip_column i a) (strip_column i b)"
  by (simp add: same_rows_def strip_column_def)

lemma filter_rows_same:
  "same_rows a b \<Longrightarrow> same_rows (filter_rows P a) (filter_rows P b)"
  by (simp add: same_rows_def filter_rows_def)

lemma strip_string_columns_same:
  "same_rows a b \<Longrightarrow> same_rows (strip_string_columns cols a) (strip_string_columns cols b)"
proof (induction cols arbitrary: a b)
  case Nil
  then show ?case by simp
next
  case (Cons col cols)
  have c: "columns a = columns b" using Cons.prems by (simp add: same_rows_def)
  show ?case
    using Cons.prems
    by (auto simp: c split: option.split intro!: Cons.IH strip_column_same)
qed

lemma drop_critical_nulls_same:
  "same_rows a b \<Longrightarrow> same_rows (drop_critical_nulls cols a) (drop_critical_nulls cols b)"
proof (induction cols arbitrary: a b)
  case Nil
  then show ?case by simp
next
  case (Cons col cols)
  have c: "columns a = columns b" using Cons.prems by (simp add: same_rows_def)
  show ?case
    using Cons.prems
    by (auto simp: c split: option.split intro!: Cons.IH filter_rows_same)
qed

lemma rename_lower_same:
  "same_rows a b \<Longrightarrow> rel_sum (=) same_rows (rename_lower a) (rename_lower b)"
  by (simp add: same_rows_def rename_lower_def)

lemma parse_order_date_same:
  "same_rows a b \<Longrightarrow>
   rel_sum (=) same_rows (parse_order_date strptime a) (parse_order_date strptime b)"
  by (simp add: same_rows_def parse_order_date_def split: option.split)

lemma filter_numeric_same:
  "same_rows a b \<Longrightarrow> rel_sum (=) same_rows (filter_numeric col P a) (filter_numeric col P b)"
proof -
  assume ab: "same_rows a b"
  then have c: "columns a = columns b" by (simp add: same_rows_def)
  show ?thesis
  proof (cases "col_index col (columns b)")
    case None
    then show ?thesis using ab c by (simp add: filter_numeric_def)
  next
    case (Some i)
    then show ?thesis using filter_rows_same [OF ab] c
      by (simp add: filter_numeric_def)
  qed
qed

lemma and_then_rel:
  assumes "rel_sum (=) R x y" and "\<And>a b. R a b \<Longrightarrow> rel_sum (=) S (f a) (g b)"
  shows "rel_sum (=) S (and_then x f) (and_then y g)"
  using assms by (cases x; cases y) (simp_all add: and_then_def)

lemma apply_silver_transformations_same:
  assumes "unique_contract uniq1" and "unique_contract uniq2"
  shows "rel_sum (=) same_rows (apply_silver_transformations uniq1 strptime df)
           (apply_silver_transformations uniq2 strptime df)"
proof -
  have u: "apply_silver_transformations uniq strptime df =
     and_then (rename_lower
        (strip_string_columns (map fst (columns df)) (df \<lparr> rows := uniq (rows df) \<rparr>)))
       (\<lambda>df.
         and_then (parse_order_date strptime df) (\<lambda>df.
         and_then (filter_numeric ''quantity'' (\<lambda>x. x > 0)
            (drop_critical_nulls [''customer_id'', ''order_id'', ''order_date''] df)) (\<lambda>df.
            and_then (filter_numeric ''unit_price'' (\<lambda>x. x > 0) df) (\<lambda>df.
            and_then (filter_numeric ''customer_age'' (\<lambda>x. x \<ge> 18 \<and> x \<le> 100) df) (\<lambda>df.
            filter_numeric ''satisfaction_score'' (\<lambda>x. x \<ge> 1 \<and> x \<le> 10) df)))))" for uniq
    by (simp add: apply_silver_transformations_def Let_def)
  have s: "same_rows
     (strip_string_columns (map fst (columns df)) (df \<lparr> rows := uniq1 (rows df) \<rparr>))
     (strip_string_columns (map fst (columns df)) (df \<lparr> rows := uniq2 (rows df) \<rparr>))"
    by (rule strip_string_columns_same [OF unique_same_rows [OF assms]])
  show ?thesis
    unfolding u
    apply (rule and_then_rel [OF rename_lower_same [OF s]])
    apply (rule and_then_rel [OF parse_order_date_same], assumption)
    apply (rule and_then_rel [OF filter_numeric_same [OF drop_critical_nulls_same]], assumption)
    apply (rule and_then_rel [OF filter_numeric_same], assumption)
    apply (rule and_then_rel [OF filter_numeric_same], assumption)
    apply (rule filter_numeric_same, assumption)
    done
qed

text \<open>
  C2. Promotion is replay-safe up to the order of the rows. Whatever
  \<open>df.unique()\<close> does within its contract in the first and in the second run,
  when the first run has returned, the second run on the unchanged bronze table
  returns too, and its cleaned frame has the same columns and the same rows, each
  as often, as the first; it is the frame then stored as the silver file and the
  silver table, and the bronze tables are as before. The order of the rows is
  the one \<open>df.unique()\<close> returns, which polars leaves open.
\<close>

theorem promote_to_silver_replay:
  assumes "unique_contract uniq1" and "unique_contract uniq2"
      and "promote_to_silver uniq1 strptime s bronze_table silver_table = Inr (s1, d1)"
  shows "\<exists>s2 d2. promote_to_silver uniq2 strptime s1 bronze_table silver_table = Inr (s2, d2)
           \<and> columns d2 = columns d1 \<and> mset (rows d2) = mset (rows d1)
           \<and> silver_files s2 silver_table = Some d2
           \<and> silver_tables s2 silver_table = Some d2
           \<and> bronze_tables s2 = bronze_tables s"
proof -
  from assms(3) obtain raw where raw: "bronze_tables s bronze_table = Some raw"
    by (auto simp: promote_to_silver_def split: option.splits)
  with assms(3) have d1: "apply_silver_transformations uniq1 strptime raw = Inr d1"
    and s1: "s1 = s \<lparr> silver_files := (silver_files s)(silver_table \<mapsto> d1),
                     silver_tables := (silver_tables s)(silver_table \<mapsto> d1) \<rparr>"
    by (auto simp: promote_to_silver_def and_then_def split: sum.splits)
  from apply_silver_transformations_same [OF assms(1,2), of strptime raw] d1
  obtain d2 where d2: "apply_silver_transformations uniq2 strptime raw = Inr d2"
    and same: "same_rows d1 d2"
    by (cases "apply_silver_transformations uniq2 strptime raw") auto
  have "promote_to_silver uniq2 strptime s1 bronze_table silver_table =
          Inr (s1 \<lparr> silver_files := (silver_files s1)(silver_table \<mapsto> d2),
                    silver_tables := (silver_tables s1)(silver_table \<mapsto> d2) \<rparr>, d2)"
    using raw d2 by (simp add: promote_to_silver_def and_then_def s1)
  then show ?thesis using same by (simp add: same_rows_def s1)
qed

theorem promote_to_silver_replay_witness:
  "\<exists>s2 d2.
     promote_to_silver (\<lambda>rs. rev (remdups rs))
       (\<lambda>str. if str = ''2024-01-01'' then Some 19723 else None)
       (\<lparr> bronze_files = Map.empty, silver_files = Map.empty, gold_files = Map.empty,
          bronze_tables = [''orders'' \<mapsto>
            \<lparr> columns = [(''Order_ID'', Utf8), (''order_date'', Utf8), (''quantity'', Int64)],
              rows = [[StrV '' O1 '', StrV ''2024-01-01'', IntV 1],
                      [StrV ''O2'', StrV ''soon'', IntV 2],
                      [StrV ''O3'', StrV ''2024-01-01'', IntV 0],
                      [StrV ''O4'', StrV ''2024-01-01'', IntV 4],
                      [StrV ''O4'', StrV ''2024-01-01'', IntV 4]] \<rparr>],
          silver_tables = Map.empty, gold_tables = Map.empty \<rparr>
        \<lparr> silver_files := [''orders'' \<mapsto>
            \<lparr> columns = [(''order_id'', Utf8), (''order_date'', Date), (''quantity'', Int64)],
              rows = [[StrV ''O1'', DateV 19723, IntV 1],
                      [StrV ''O4'', DateV 19723, IntV 4]] \<rparr>],
          silver_tables := [''orders'' \<mapsto>
            \<lparr> columns = [(''order_id'', Utf8), (''order_date'', Date), (''quantity'', Int64)],
              rows = [[StrV ''O1'', DateV 19723, IntV 1],
                      [StrV ''O4'', DateV 19723, IntV 4]] \<rparr>] \<rparr>)
       ''orders'' ''orders'' = Inr (s2, d2)
   \<and> columns d2 = [(''order_id'', Utf8), (''order_date'', Date), (''quantity'', Int64)]
   \<and> mset (rows d2) = mset [[StrV ''O1'', DateV 19723, IntV 1],
                              [StrV ''O4'', DateV 19723, IntV 4]]
   \<and> silver_files s2 ''orders'' = Some d2
   \<and> silver_tables s2 ''orders'' = Some d2"
proof -
  let ?raw = "\<lparr> columns = [(''Order_ID'', Utf8), (''order_date'', Utf8), (''quantity'', Int64)],
              rows = [[StrV '' O1 '', StrV ''2024-01-01'', IntV 1],
                      [StrV ''O2'', StrV ''soon'', IntV 2],
                      [StrV ''O3'', StrV ''2024-01-01'', IntV 0],
                      [StrV ''O4'', StrV ''2024-01-01'', IntV 4],
                      [StrV ''O4'', StrV ''2024-01-01'', IntV 4]] \<rparr>"
  let ?sp = "\<lambda>str. if str = ''2024-01-01'' then Some (19723::int) else None"
  let ?s = "\<lparr> bronze_files = Map.empty, silver_files = Map.empty, gold_files = Map.empty,
          bronze_tables = [''orders'' \<mapsto> ?raw],
          silver_tables = Map.empty, gold_tables = Map.empty \<rparr>"
  let ?d1 = "\<lparr> columns = [(''order_id'', Utf8), (''order_date'', Date), (''quantity'', Int64)],
              rows = [[StrV ''O1'', DateV 19723, IntV 1],
                      [StrV ''O4'', DateV 19723, IntV 4]] \<rparr>"
  have t: "apply_silver_transformations remdups ?sp ?raw = Inr ?d1"
    by code_simp
  have p: "promote_to_silver remdups ?sp ?s ''orders'' ''orders'' =
             Inr (?s \<lparr> silver_files := (silver_files ?s)(''orders'' \<mapsto> ?d1),
                       silver_tables := (silver_tables ?s)(''orders'' \<mapsto> ?d1) \<rparr>, ?d1)"
    by (simp add: promote_to_silver_def and_then_def t)
  from promote_to_silver_replay [OF unique_contract_remdups unique_contract_rev_remdups p]
  obtain s2 d2 where
    "promote_to_silver (\<lambda>rs. rev (remdups rs)) ?sp
       (?s \<lparr> silver_files := (silver_files ?s)(''orders'' \<mapsto> ?d1),
             silver_tables := (silver_tables ?s)(''orders'' \<mapsto> ?d1) \<rparr>)
       ''orders'' ''orders'' = Inr (s2, d2)"
    "columns d2 = columns ?d1" "mset (rows d2) = mset (rows ?d1)"
    "silver_files s2 ''orders'' = Some d2" "silver_tables s2 ''orders'' = Some d2"
    by blast
  then show ?thesis
    by (intro exI [of _ s2] exI [of _ d2]) simp
qed

text \<open>
  The property as the specification words it fails on a bronze table of two different rows: one
  run returns them in the order O1, O2 and a second run, deduplicating in another
  order that \<open>df.unique()\<close> allows, returns and stores O2, O1.
\<close>

theorem promote_to_silver_order_counterexample:
  "unique_contract remdups \<and> unique_contract (\<lambda>rs. rev (remdups rs))
 \<and> (case promote_to_silver remdups (\<lambda>str. None)
           \<lparr> bronze_files = Map.empty, silver_files = Map.empty, gold_files = Map.empty,
             bronze_tables = [''orders'' \<mapsto>
               \<lparr> columns = [(''order_id'', Utf8)], rows = [[StrV ''O1''], [StrV ''O2'']] \<rparr>],
             silver_tables = Map.empty, gold_tables = Map.empty \<rparr> ''orders'' ''orders''
     of Inl e \<Rightarrow> None
      | Inr (s1, d1) \<Rightarrow>
          (case promote_to_silver (\<lambda>rs. rev (remdups rs)) (\<lambda>str. None) s1 ''orders'' ''orders''
           of Inl e \<Rightarrow> None
            | Inr (s2, d2) \<Rightarrow>
                Some (d1, silver_files s1 ''orders'', d2, silver_files s2 ''orders'')))
   = Some (\<lparr> columns = [(''order_id'', Utf8)], rows = [[StrV ''O1''], [StrV ''O2'']] \<rparr>,
           Some \<lparr> columns = [(''order_id'', Utf8)], rows = [[StrV ''O1''], [StrV ''O2'']] \<rparr>,
           \<lparr> columns = [(''order_id'', Utf8)], rows = [[StrV ''O2''], [StrV ''O1'']] \<rparr>,
           Some \<lparr> columns = [(''order_id'', Utf8)], rows = [[StrV ''O2''], [StrV ''O1'']] \<rparr>)"
proof -
  have "(case promote_to_silver remdups (\<lambda>str. None)
           \<lparr> bronze_files = Map.empty, silver_files = Map.empty, gold_files = Map.empty,
             bronze_tables = [''orders'' \<mapsto>
               \<lparr> columns = [(''order_id'', Utf8)], rows = [[StrV ''O1''], [StrV ''O2'']] \<rparr>],
             silver_tables = Map.empty, gold_tables = Map.empty \<rparr> ''orders'' ''orders''
     of Inl e \<Rightarrow> None
      | Inr (s1, d1) \<Rightarrow>
          (case promote_to_silver (\<lambda>rs. rev (remdups rs)) (\<lambda>str. None) s1 ''orders'' ''orders''
           of Inl e \<Rightarrow> None
            | Inr (s2, d2) \<Rightarrow>
                Some (d1, silver_files s1 ''orders'', d2, silver_files s2 ''orders'')))
   = Some (\<lparr> columns = [(''order_id'', Utf8)], rows = [[StrV ''O1''], [StrV ''O2'']] \<rparr>,
           Some \<lparr> columns = [(''order_id'', Utf8)], rows = [[StrV ''O1''], [StrV ''O2'']] \<rparr>,
           \<lparr> columns = [(''order_id'', Utf8)], rows = [[StrV ''O2''], [StrV ''O1'']] \<rparr>,
           Some \<lparr> columns = [(''order_id'', Utf8)], rows = [[StrV ''O2''], [StrV ''O1'']] \<rparr>)"
    by code_simp
  then show ?thesis
    using unique_contract_remdups unique_contract_rev_remdups by blast
qed

text \<open>
  Where the deduplication is one fixed function (as with \<open>maintain_order=True\<close>),
  the second run returns the very frame of the first and leaves the store as the
  first run left it.
\<close>

theorem promote_to_silver_same_dedup:
  assumes "promote_to_silver uniq strptime s bronze_table silver_table = Inr (s1, d1)"
  shows "promote_to_silver uniq strptime s1 bronze_table silver_table = Inr (s1, d1)"
proof -
  from assms obtain raw where raw: "bronze_tables s bronze_table = Some raw"
    by (auto simp: promote_to_silver_def split: option.splits)
  with assms have d1: "apply_silver_transformations uniq strptime raw = Inr d1"
    and s1: "s1 = s \<lparr> silver_files := (silver_files s)(silver_table \<mapsto> d1),
                     silver_tables := (silver_tables s)(silver_table \<mapsto> d1) \<rparr>"
    by (auto simp: promote_to_silver_def and_then_def split: sum.splits)
  show ?thesis using raw d1 by (simp add: promote_to_silver_def and_then_def s1)
qed

theorem promote_to_silver_same_dedup_witness:
  "promote_to_silver remdups (\<lambda>str. None)
     (\<lparr> bronze_files = Map.empty, silver_files = Map.empty, gold_files = Map.empty,
        bronze_tables = [''orders'' \<mapsto>
          \<lparr> columns = [(''order_id'', Utf8)], rows = [[StrV ''O1''], [StrV ''O1'']] \<rparr>],
        silver_tables = Map.empty, gold_tables = Map.empty \<rparr>
      \<lparr> silver_files := [''orders'' \<mapsto>
          \<lparr> columns = [(''order_id'', Utf8)], rows = [[StrV ''O1'']] \<rparr>],
        silver_tables := [''orders'' \<mapsto>
          \<lparr> columns = [(''order_id'', Utf8)], rows = [[StrV ''O1'']] \<rparr>] \<rparr>)
     ''orders'' ''orders''
   = Inr (\<lparr> bronze_files = Map.empty, silver_files = Map.empty, gold_files = Map.empty,
            bronze_tables = [''orders'' \<mapsto>
              \<lparr> columns = [(''order_id'', Utf8)], rows = [[StrV ''O1''], [StrV ''O1'']] \<rparr>],
            silver_tables = Map.empty, gold_tables = Map.empty \<rparr>
          \<lparr> silver_files := [''orders'' \<mapsto>
              \<lparr> columns = [(''order_id'', Utf8)], rows = [[StrV ''O1'']] \<rparr>],
            silver_tables := [''orders'' \<mapsto>
              \<lparr> columns = [(''order_id'', Utf8)], rows = [[StrV ''O1'']] \<rparr>] \<rparr>,
          \<lparr> columns = [(''order_id'', Utf8)], rows = [[StrV ''O1'']] \<rparr>)"
proof -
  let ?raw = "\<lparr> columns = [(''order_id'', Utf8)], rows = [[StrV ''O1''], [StrV ''O1'']] \<rparr>"
  let ?s = "\<lparr> bronze_files = Map.empty, silver_files = Map.empty, gold_files = Map.empty,
          bronze_tables = [''orders'' \<mapsto> ?raw],
          silver_tables = Map.empty, gold_tables = Map.empty \<rparr>"
  let ?d1 = "\<lparr> columns = [(''order_id'', Utf8)], rows = [[StrV ''O1'']] \<rparr>"
  have t: "apply_silver_transformations remdups (\<lambda>str. None) ?raw = Inr ?d1"
    by code_simp
  have p: "promote_to_silver remdups (\<lambda>str. None) ?s ''orders'' ''orders'' =
             Inr (?s \<lparr> silver_files := (silver_files ?s)(''orders'' \<mapsto> ?d1),
                       silver_tables := (silver_tables ?s)(''orders'' \<mapsto> ?d1) \<rparr>, ?d1)"
    by (simp add: promote_to_silver_def and_then_def t)
  from promote_to_silver_same_dedup [OF p]
  show ?thesis by simp
qed

subsection \<open>Loading to bronze\<close>

text \<open>
  C10. With \<open>mode='append'\<close>, and with any mode other than \<open>replace\<close>, loading
  a frame under the name of a bronze table that is already registered overwrites
  the parquet file with the new frame, leaves the registered table as it was and
  returns the number of rows of the new frame. With \<open>mode='replace'\<close> the
  registered table becomes the new frame.
\<close>

theorem load_to_bronze_append_keeps_table:
  assumes "bronze_tables s table_name = Some old" and "mode \<noteq> ''replace''"
  shows "load_to_bronze s df table_name mode =
           (s \<lparr> bronze_files := (bronze_files s)(table_name \<mapsto> df) \<rparr>, height df)
       \<and> load_to_bronze s df table_name ''replace'' =
           (s \<lparr> bronze_files := (bronze_files s)(table_name \<mapsto> df),
                bronze_tables := (bronze_tables s)(table_name \<mapsto> df) \<rparr>, height df)"
  using assms by (simp add: load_to_bronze_def Let_def)

theorem load_to_bronze_append_keeps_table_witness:
  "bronze_tables
     (fst (load_to_bronze
        \<lparr> bronze_files = [''orders'' \<mapsto> \<lparr> columns = [(''id'', Int64)], rows = [[IntV 1]] \<rparr>],
          silver_files = Map.empty, gold_files = Map.empty,
          bronze_tables = [''orders'' \<mapsto> \<lparr> columns = [(''id'', Int64)], rows = [[IntV 1]] \<rparr>],
          silver_tables = Map.empty, gold_tables = Map.empty \<rparr>
        \<lparr> columns = [(''id'', Int64)], rows = [[IntV 2], [IntV 3]] \<rparr> ''orders'' ''append''))
     ''orders'' = Some \<lparr> columns = [(''id'', Int64)], rows = [[IntV 1]] \<rparr>
 \<and> bronze_files
     (fst (load_to_bronze
        \<lparr> bronze_files = [''orders'' \<mapsto> \<lparr> columns = [(''id'', Int64)], rows = [[IntV 1]] \<rparr>],
          silver_files = Map.empty, gold_files = Map.empty,
          bronze_tables = [''orders'' \<mapsto> \<lparr> columns = [(''id'', Int64)], rows = [[IntV 1]] \<rparr>],
          silver_tables = Map.empty, gold_tables = Map.empty \<rparr>
        \<lparr> columns = [(''id'', Int64)], rows = [[IntV 2], [IntV 3]] \<rparr> ''orders'' ''append''))
     ''orders'' = Some \<lparr> columns = [(''id'', Int64)], rows = [[IntV 2], [IntV 3]] \<rparr>
 \<and> snd (load_to_bronze
        \<lparr> bronze_files = [''orders'' \<mapsto> \<lparr> columns = [(''id'', Int64)], rows = [[IntV 1]] \<rparr>],
          silver_files = Map.empty, gold_files = Map.empty,
          bronze_tables = [''orders'' \<mapsto> \<lparr> columns = [(''id'', Int64)], rows = [[IntV 1]] \<rparr>],
          silver_tables = Map.empty, gold_tables = Map.empty \<rparr>
        \<lparr> columns = [(''id'', Int64)], rows = [[IntV 2], [IntV 3]] \<rparr> ''orders'' ''append'') = 2
 \<and> bronze_tables
     (fst (load_to_bronze
        \<lparr> bronze_files = [''orders'' \<mapsto> \<lparr> columns = [(''id'', Int64)], rows = [[IntV 1]] \<rparr>],
          silver_files = Map.empty, gold_files = Map.empty,
          bronze_tables = [''orders'' \<mapsto> \<lparr> columns = [(''id'', Int64)], rows = [[IntV 1]] \<rparr>],
          silver_tables = Map.empty, gold_tables = Map.empty \<rparr>
        \<lparr> columns = [(''id'', Int64)], rows = [[IntV 2], [IntV 3]] \<rparr> ''orders'' ''replace''))
     ''orders'' = Some \<lparr> columns = [(''id'', Int64)], rows = [[IntV 2], [IntV 3]] \<rparr>"
  using load_to_bronze_append_keeps_table
    [of "\<lparr> bronze_files = [''orders'' \<mapsto> \<lparr> columns = [(''id'', Int64)], rows = [[IntV 1]] \<rparr>],
          silver_files = Map.empty, gold_files = Map.empty,
          bronze_tables = [''orders'' \<mapsto> \<lparr> columns = [(''id'', Int64)], rows = [[IntV 1]] \<rparr>],
          silver_tables = Map.empty, gold_tables = Map.empty \<rparr>"
        "''orders''" "\<lparr> columns = [(''id'', Int64)], rows = [[IntV 1]] \<rparr>" "''append''"
        "\<lparr> columns = [(''id'', Int64)], rows = [[IntV 2], [IntV 3]] \<rparr>"]
  by (simp add: height_def)

subsection \<open>Gold aggregates\<close>

lemma try_aggregate_result:
  "silver_tables (fst (try_aggregate execute aggs key q name st)) = silver_tables (fst st)
 \<and> snd (try_aggregate execute aggs key q name st) =
     snd st @ reported execute (fst st) aggs key q name"
  by (cases "execute q (silver_tables (fst st))")
     (simp_all add: try_aggregate_def create_gold_aggregate_def and_then_def reported_def)

lemma reported_cong:
  "silver_tables s = silver_tables s' \<Longrightarrow>
   reported execute s aggs key q name = reported execute s' aggs key q name"
  by (simp add: reported_def)

text \<open>
  C9. \<open>create_gold_aggregations\<close> always returns its results, and what it reports
  for each of the four aggregates is decided by that aggregate alone: the row
  count of its table when it was asked for and its query succeeded on the silver
  tables, nothing when its creation raised. An error in one aggregate is caught,
  that aggregate is missing from the results, and the others are attempted and
  reported as if it had not failed.
\<close>

theorem gold_aggregates_fail_alone:
  "snd (create_gold_aggregations execute s silver_table aggregations) =
     reported execute s aggregations ''daily_sales'' (DailySales silver_table) ''daily_sales''
   @ reported execute s aggregations ''customer_lifetime_value''
       (CustomerLtv silver_table) ''customer_ltv''
   @ reported execute s aggregations ''product_performance''
       (ProductPerformance silver_table) ''product_performance''
   @ reported execute s aggregations ''regional_analytics''
       (RegionalAnalytics silver_table) ''regional_analytics''"
proof -
  let ?st1 = "try_aggregate execute aggregations ''daily_sales''
                (DailySales silver_table) ''daily_sales'' (s, [])"
  let ?st2 = "try_aggregate execute aggregations ''customer_lifetime_value''
                (CustomerLtv silver_table) ''customer_ltv'' ?st1"
  let ?st3 = "try_aggregate execute aggregations ''product_performance''
                (ProductPerformance silver_table) ''product_performance'' ?st2"
  let ?st4 = "try_aggregate execute aggregations ''regional_analytics''
                (RegionalAnalytics silver_table) ''regional_analytics'' ?st3"
  have s1: "silver_tables (fst ?st1) = silver_tables s"
    using try_aggregate_result [of execute aggregations _ _ _ "(s, [])"] by simp
  have s2: "silver_tables (fst ?st2) = silver_tables s"
    using try_aggregate_result [of execute aggregations _ _ _ ?st1] s1 by simp
  have s3: "silver_tables (fst ?st3) = silver_tables s"
    using try_aggregate_result [of execute aggregations _ _ _ ?st2] s2 by simp
  have "snd ?st4 = snd ?st3 @ reported execute (fst ?st3) aggregations ''regional_analytics''
       (RegionalAnalytics silver_table) ''regional_analytics''"
    using try_aggregate_result [of execute aggregations _ _ _ ?st3] by blast
  moreover have "snd ?st3 = snd ?st2 @ reported execute (fst ?st2) aggregations
       ''product_performance'' (ProductPerformance silver_table) ''product_performance''"
    using try_aggregate_result [of execute aggregations _ _ _ ?st2] by blast
  moreover have "snd ?st2 = snd ?st1 @ reported execute (fst ?st1) aggregations
       ''customer_lifetime_value'' (CustomerLtv silver_table) ''customer_ltv''"
    using try_aggregate_result [of execute aggregations _ _ _ ?st1] by blast
  moreover have "snd ?st1 = reported execute s aggregations ''daily_sales''
       (DailySales silver_table) ''daily_sales''"
    using try_aggregate_result [of execute aggregations _ _ _ "(s, [])"] by simp
  ultimately have "snd ?st4 =
     reported execute s aggregations ''daily_sales'' (DailySales silver_table) ''daily_sales''
   @ reported execute s aggregations ''customer_lifetime_value''
       (CustomerLtv silver_table) ''customer_ltv''
   @ reported execute s aggregations ''product_performance''
       (ProductPerformance silver_table) ''product_performance''
   @ reported execute s aggregations ''regional_analytics''
       (RegionalAnalytics silver_table) ''regional_analytics''"
    using reported_cong [OF s1] reported_cong [OF s2] reported_cong [OF s3] by simp
  then show ?thesis by (simp add: create_gold_aggregations_def Let_def)
qed

text \<open>
  An engine that fails the customer query (the silver table has no
  \<open>customer_segment\<close> column, say) and answers the others: three aggregates are
  reported, \<open>customer_ltv\<close> is not.
\<close>

theorem gold_aggregates_fail_alone_witness:
  "snd (create_gold_aggregations
     (\<lambda>q tables. case q of
         CustomerLtv t \<Rightarrow> Inl QueryError
       | DailySales t \<Rightarrow> Inr \<lparr> columns = [(''order_date'', Date)], rows = [[DateV 1], [DateV 2]] \<rparr>
       | ProductPerformance t \<Rightarrow> Inr \<lparr> columns = [(''product_name'', Utf8)], rows = [[StrV ''Phone'']] \<rparr>
       | RegionalAnalytics t \<Rightarrow> Inr \<lparr> columns = [(''shipping_country'', Utf8)],
                                       rows = [[StrV ''UK''], [StrV ''USA'']] \<rparr>)
     \<lparr> bronze_files = Map.empty, silver_files = Map.empty, gold_files = Map.empty,
       bronze_tables = Map.empty, silver_tables = Map.empty, gold_tables = Map.empty \<rparr>
     ''orders''
     [''daily_sales'', ''customer_lifetime_value'', ''product_performance'',
      ''regional_analytics''])
   = [(''daily_sales'', 2), (''product_performance'', 1), (''regional_analytics'', 2)]"
  by (simp add: gold_aggregates_fail_alone reported_def height_def)

section \<open>Properties of validation\<close>

text \<open>
  C5. In lazy mode the valid output should be the input rows that no failure
  case refers to. The schema step of \<open>main.py\<close> takes \<open>err.failure_cases.index\<close>,
  the positions of the lines of the failure table, for the labels of the failing
  rows, which are in that table's column \<open>index\<close>. Of three customers of which
  only the third fails a check (age 200), the step drops the first, who is valid,
  and keeps the third.
\<close>

theorem schema_step_drops_first_rows:
  "schema_validation_step (\<lambda>df answer. [])
     \<lparr> columns = wallet_columns,
       rows = [wallet_row ''C1'' 30 ''Urban'', wallet_row ''C2'' 40 ''Rural'',
               wallet_row ''C3'' 200 ''Urban''] \<rparr>
   = Inr (\<lparr> columns = wallet_columns,
            rows = [wallet_row ''C2'' 40 ''Rural'', wallet_row ''C3'' 200 ''Urban''] \<rparr>,
          Some [\<lparr> fc_column = ''Age'', fc_check = Column_check (Le 100), fc_index = Some 2 \<rparr>])"
  by code_simp

text \<open>
  C6. Row conservation, with every excluded row accounted for in the failure
  records, fails in both validators. In \<open>validate_all\<close> Rule 1 records the rows
  it excludes for a null; Rules 2 and 3 exclude a row whose mask is null as well
  (the filter keeps only the rows whose mask is true), and count with
  \<open>sum(failed_idx)\<close>: an order with a null quantity is dropped and no record
  counts it, and where a quantity is null and another is not positive the call
  ends in a TypeError. In the schema step of \<open>main.py\<close> the failed output is the
  table of failure cases, one line per row, column and check: one customer who
  fails two checks leaves no valid row and two failed lines for an input of one
  row.
\<close>

theorem validation_loses_rows:
  "validate_all (\<lambda>d. Inl TypeError) 20000 (\<lambda>str. None)
     \<lparr> columns = [(''customer_id'', Utf8), (''quantity'', Int64)],
       rows = [[StrV ''C1'', IntV 1], [StrV ''C2'', Null]] \<rparr>
   = Inr (\<lparr> columns = [(''customer_id'', Utf8), (''quantity'', Int64)],
            rows = [[StrV ''C1'', IntV 1]] \<rparr>, [])
 \<and> validate_all (\<lambda>d. Inl TypeError) 20000 (\<lambda>str. None)
     \<lparr> columns = [(''customer_id'', Utf8), (''quantity'', Int64)],
       rows = [[Null, IntV 1], [StrV ''C2'', IntV 2]] \<rparr>
   = Inr (\<lparr> columns = [(''customer_id'', Utf8), (''quantity'', Int64)],
            rows = [[StrV ''C2'', IntV 2]] \<rparr>,
          [\<lparr> fr_rule = ''NOT_NULL_customer_id'', fr_column = ''customer_id'', fr_count = 1 \<rparr>])
 \<and> validate_all (\<lambda>d. Inl TypeError) 20000 (\<lambda>str. None)
     \<lparr> columns = [(''customer_id'', Utf8), (''quantity'', Int64)],
       rows = [[StrV ''C1'', IntV 1], [StrV ''C2'', IntV (-1)], [StrV ''C3'', Null]] \<rparr>
   = Inl TypeError
 \<and> schema_validation_step (\<lambda>df answer. [])
     \<lparr> columns = wallet_columns, rows = [wallet_row ''C1'' 200 ''Mars''] \<rparr>
   = Inr (\<lparr> columns = wallet_columns, rows = [] \<rparr>,
          Some [\<lparr> fc_column = ''Age'', fc_check = Column_check (Le 100), fc_index = Some 0 \<rparr>,
                \<lparr> fc_column = ''Location'',
                   fc_check = Column_check (Isin [''Urban'', ''Suburban'', ''Rural'']),
                   fc_index = Some 0 \<rparr>])"
  by code_simp

subsection \<open>The rows the schema step keeps\<close>

lemma filter_ge_upt: "filter (\<lambda>l. k \<le> l) [0 ..< n] = [k ..< n]"
  by (induction n) auto

lemma index_difference_range:
  "index_difference [0 ..< n] [0 ..< k] = [k ..< n]"
proof -
  have "filter (\<lambda>l. l \<notin> set [0 ..< k]) [0 ..< n] = filter (\<lambda>l. k \<le> l) [0 ..< n]"
    by (rule filter_cong) auto
  then show ?thesis by (simp add: index_difference_def filter_ge_upt)
qed

lemma loc_range: "rows (loc df [k ..< height df]) = drop k (rows df)"
proof -
  have f: "filter (\<lambda>l. l < height df) [k ..< height df] = [k ..< height df]"
    by (rule filter_True) simp
  have "drop k (rows df) = drop k (map (\<lambda>l. rows df ! l) [0 ..< length (rows df)])"
    by (simp only: map_nth)
  also have "\<dots> = map (\<lambda>l. rows df ! l) [k ..< length (rows df)]"
    by (simp add: drop_map)
  finally show ?thesis by (simp add: loc_def f height_def)
qed

text \<open>
  Whatever the frame and the failure cases, when the schema step has caught
  \<open>k\<close> failure cases it goes on with the input without its first \<open>k\<close> rows.
\<close>

theorem schema_step_drops_leading_rows:
  assumes "schema_validation_step report df = Inr (df_valid, Some failure_cases)"
  shows "columns df_valid = columns df
       \<and> rows df_valid = drop (length failure_cases) (rows df)"
proof -
  from assms have v: "validate_schema report df True = Inl (SchemaErrors failure_cases)"
    and d: "df_valid = loc df (index_difference [0 ..< height df] [0 ..< length failure_cases])"
    by (auto simp: schema_validation_step_def Let_def split: sum.splits schema_error.splits)
  show ?thesis
    unfolding d index_difference_range
    by (simp add: loc_range) (simp add: loc_def)
qed

theorem schema_step_drops_leading_rows_witness:
  "columns (fst (projr (schema_validation_step (\<lambda>df answer. [])
     \<lparr> columns = wallet_columns,
       rows = [wallet_row ''C1'' 30 ''Urban'', wallet_row ''C2'' 40 ''Mars'',
               wallet_row ''C3'' 200 ''Urban''] \<rparr>))) = wallet_columns
 \<and> rows (fst (projr (schema_validation_step (\<lambda>df answer. [])
     \<lparr> columns = wallet_columns,
       rows = [wallet_row ''C1'' 30 ''Urban'', wallet_row ''C2'' 40 ''Mars'',
               wallet_row ''C3'' 200 ''Urban''] \<rparr>))) = [wallet_row ''C3'' 200 ''Urban'']"
proof -
  have e: "schema_validation_step (\<lambda>df answer. [])
     \<lparr> columns = wallet_columns,
       rows = [wallet_row ''C1'' 30 ''Urban'', wallet_row ''C2'' 40 ''Mars'',
               wallet_row ''C3'' 200 ''Urban''] \<rparr>
    = Inr (\<lparr> columns = wallet_columns, rows = [wallet_row ''C3'' 200 ''Urban''] \<rparr>,
        Some [\<lparr> fc_column = ''Age'', fc_check = Column_check (Le 100), fc_index = Some 2 \<rparr>,
              \<lparr> fc_column = ''Location'',
                 fc_check = Column_check (Isin [''Urban'', ''Suburban'', ''Rural'']),
                 fc_index = Some 1 \<rparr>])"
    by code_simp
  from schema_step_drops_leading_rows [OF e] e show ?thesis by simp
qed

end
